theory Spec2Isabelle
  imports Main "HOL-Library.Sublist"
begin

section \<open>Python values, exceptions and dates\<close>

text \<open>
  An exception is represented by the name of its class. A function of the source that can
  raise returns \<open>pyexc + 'a\<close>, with \<open>Inl\<close> for the raised exception.

  Strings are lists of 8-bit characters, read as the code points below 256.
\<close>

datatype pyexc = PyExc string

datatype date = Date (year: nat) (month: nat) (day: nat)

text \<open>
  The scalar values that occur as fields of a catalog descriptor, of an index document and
  of a metadata record: \<open>None\<close>, \<open>str\<close>, \<open>int\<close> and \<open>datetime.date\<close>.
  A \<open>dict\<close> with string keys is an association list in insertion order.
\<close>

datatype pyval = PNone | PStr string | PInt int | PDate date

type_synonym dict = "(string \<times> pyval) list"

text \<open>\<open>d[k]\<close> raises \<open>KeyError\<close> on a missing key; \<open>d.get(k)\<close> returns \<open>None\<close>.\<close>

definition subscript :: "dict \<Rightarrow> string \<Rightarrow> pyexc + pyval" where
  "subscript d k = (case map_of d k of None \<Rightarrow> Inl (PyExc ''KeyError'') | Some v \<Rightarrow> Inr v)"

definition dict_get :: "dict \<Rightarrow> string \<Rightarrow> pyval" where
  "dict_get d k = (case map_of d k of None \<Rightarrow> PNone | Some v \<Rightarrow> v)"

text \<open>Comparison \<open>a > b\<close> of two \<open>datetime.date\<close> objects.\<close>

fun date_gt :: "date \<Rightarrow> date \<Rightarrow> bool" where
  "date_gt (Date y1 m1 d1) (Date y2 m2 d2) =
     (y2 < y1 \<or> (y1 = y2 \<and> (m2 < m1 \<or> (m1 = m2 \<and> d2 < d1))))"

text \<open>
  The constructor \<open>datetime.date(year, month, day)\<close>: \<open>ValueError\<close> unless
  \<open>1 \<le> year \<le> 9999\<close>, \<open>1 \<le> month \<le> 12\<close> and the day exists in that month.
\<close>

definition is_leap :: "nat \<Rightarrow> bool" where
  "is_leap y = (y mod 4 = 0 \<and> (y mod 100 \<noteq> 0 \<or> y mod 400 = 0))"

definition days_in_month :: "nat \<Rightarrow> nat \<Rightarrow> nat" where
  "days_in_month y m =
     (if m = 2 then (if is_leap y then 29 else 28)
      else if m = 4 \<or> m = 6 \<or> m = 9 \<or> m = 11 then 30 else 31)"

definition valid_date :: "nat \<Rightarrow> nat \<Rightarrow> nat \<Rightarrow> bool" where
  "valid_date y m d =
     (1 \<le> y \<and> y \<le> 9999 \<and> 1 \<le> m \<and> m \<le> 12 \<and> 1 \<le> d \<and> d \<le> days_in_month y m)"

definition make_date :: "nat \<Rightarrow> nat \<Rightarrow> nat \<Rightarrow> pyexc + date" where
  "make_date y m d = (if valid_date y m d then Inr (Date y m d) else Inl (PyExc ''ValueError''))"

subsection \<open>Characters and numbers\<close>

definition is_digit :: "char \<Rightarrow> bool" where
  "is_digit c = (c \<in> set ''0123456789'')"

definition is_digit19 :: "char \<Rightarrow> bool" where
  "is_digit19 c = (c \<in> set ''123456789'')"

definition digit_val :: "char \<Rightarrow> nat" where
  "digit_val c = of_char c - 48"

definition digit_char :: "nat \<Rightarrow> char" where
  "digit_char n = ''0123456789'' ! n"

fun str_nat :: "nat \<Rightarrow> string" where
  "str_nat n = (if n < 10 then [digit_char n] else str_nat (n div 10) @ [digit_char (n mod 10)])"

declare str_nat.simps [simp del]

definition str_int :: "int \<Rightarrow> string" where
  "str_int i = (if i < 0 then CHR ''-'' # str_nat (nat (- i)) else str_nat (nat i))"

text \<open>The format \<open>%0wd\<close> of a natural number.\<close>

definition zfill :: "nat \<Rightarrow> nat \<Rightarrow> string" where
  "zfill w n = replicate (w - length (str_nat n)) (CHR ''0'') @ str_nat n"

text \<open>\<open>str(d)\<close> of a date is \<open>d.isoformat()\<close>, that is \<open>%04d-%02d-%02d\<close>.\<close>

fun isoformat :: "date \<Rightarrow> string" where
  "isoformat (Date y m d) = zfill 4 y @ ''-'' @ zfill 2 m @ ''-'' @ zfill 2 d"

text \<open>\<open>str(v)\<close>, as an f-string formats a value.\<close>

fun py_str :: "pyval \<Rightarrow> string" where
  "py_str PNone = ''None''"
| "py_str (PStr s) = s"
| "py_str (PInt i) = str_int i"
| "py_str (PDate d) = isoformat d"

text \<open>
  \<open>str.lower()\<close> on the code points below 256: the letters \<open>A\<close> to \<open>Z\<close> and the
  Latin-1 capitals \<open>0xC0\<close> to \<open>0xDE\<close> (without the multiplication sign \<open>0xD7\<close>) move
  up by 32, which sets bit 5; every other character stays.
\<close>

definition is_upper :: "char \<Rightarrow> bool" where
  "is_upper c =
     (let n = (of_char c :: nat)
      in (65 \<le> n \<and> n \<le> 90) \<or> (192 \<le> n \<and> n \<le> 222 \<and> n \<noteq> 215))"

fun lower_char :: "char \<Rightarrow> char" where
  "lower_char (Char b0 b1 b2 b3 b4 b5 b6 b7) =
     (if is_upper (Char b0 b1 b2 b3 b4 b5 b6 b7) then Char b0 b1 b2 b3 b4 True b6 b7
      else Char b0 b1 b2 b3 b4 b5 b6 b7)"

definition lower :: "string \<Rightarrow> string" where
  "lower s = map lower_char s"

text \<open>\<open>v.lower()\<close> on a value: only a \<open>str\<close> has the method.\<close>

fun py_lower :: "pyval \<Rightarrow> pyexc + string" where
  "py_lower (PStr s) = Inr (lower s)"
| "py_lower _ = Inl (PyExc ''AttributeError'')"

subsection \<open>\<open>datetime.strptime(s, "%Y-%m-%d").date()\<close>\<close>

text \<open>
  The library turns the format into the regular expression
  \<open>(\d\d\d\d)-(1[0-2]|0[1-9]|[1-9])-(3[0-1]|[1-2]\d|0[1-9]|[1-9]| [1-9])\<close>, matches it at
  the start of the string, raises \<open>ValueError\<close> when it does not match or when text
  remains after the match, and builds the date from the three numbers. Each matcher below
  returns the number read and the rest of the string. An argument that is not a \<open>str\<close>
  raises \<open>TypeError\<close>.
\<close>

fun match_year :: "string \<Rightarrow> (nat \<times> string) option" where
  "match_year (a # b # c # d # r) =
     (if is_digit a \<and> is_digit b \<and> is_digit c \<and> is_digit d
      then Some (1000 * digit_val a + 100 * digit_val b + 10 * digit_val c + digit_val d, r)
      else None)"
| "match_year _ = None"

fun match_month :: "string \<Rightarrow> (nat \<times> string) option" where
  "match_month (a # b # r) =
     (if a = CHR ''1'' \<and> b \<in> set ''012'' then Some (10 + digit_val b, r)
      else if a = CHR ''0'' \<and> is_digit19 b then Some (digit_val b, r)
      else if is_digit19 a then Some (digit_val a, b # r)
      else None)"
| "match_month [a] = (if is_digit19 a then Some (digit_val a, []) else None)"
| "match_month [] = None"

fun match_day :: "string \<Rightarrow> (nat \<times> string) option" where
  "match_day (a # b # r) =
     (if a = CHR ''3'' \<and> b \<in> set ''01'' then Some (30 + digit_val b, r)
      else if a \<in> set ''12'' \<and> is_digit b then Some (10 * digit_val a + digit_val b, r)
      else if a = CHR ''0'' \<and> is_digit19 b then Some (digit_val b, r)
      else if is_digit19 a then Some (digit_val a, b # r)
      else if a = CHR '' '' \<and> is_digit19 b then Some (digit_val b, r)
      else None)"
| "match_day [a] = (if is_digit19 a then Some (digit_val a, []) else None)"
| "match_day [] = None"

fun match_dash :: "string \<Rightarrow> string option" where
  "match_dash (c # r) = (if c = CHR ''-'' then Some r else None)"
| "match_dash [] = None"

definition match_ymd :: "string \<Rightarrow> (nat \<times> nat \<times> nat) option" where
  "match_ymd s =
     Option.bind (match_year s) (\<lambda>(y, r1).
     Option.bind (match_dash r1) (\<lambda>r2.
     Option.bind (match_month r2) (\<lambda>(m, r3).
     Option.bind (match_dash r3) (\<lambda>r4.
     Option.bind (match_day r4) (\<lambda>(d, r5).
     if r5 = [] then Some (y, m, d) else None)))))"

fun strptime_ymd :: "pyval \<Rightarrow> pyexc + date" where
  "strptime_ymd (PStr s) =
     (case match_ymd s of
        None \<Rightarrow> Inl (PyExc ''ValueError'')
      | Some (y, m, d) \<Rightarrow> make_date y m d)"
| "strptime_ymd _ = Inl (PyExc ''TypeError'')"

subsection \<open>\<open>datetime.fromisoformat(s).date()\<close>\<close>

text \<open>
  In every version of the library a string of exactly ten characters, four digits, a dash,
  two digits, a dash and two digits, is read as year, month and day, and is rejected when
  that date does not exist. What else the library accepts depends on its version: the date
  followed by a separator and a time of day in all of them, the basic format \<open>YYYYMMDD\<close>
  and the week format \<open>YYYY-Www-D\<close> from Python 3.11 on. So the answer of the library to
  any other string is a parameter, \<open>other\<close>: the date it returns, or \<open>None\<close> when it
  rejects the string. Every rejection is a \<open>ValueError\<close>; an argument that is not a
  \<open>str\<close> raises \<open>TypeError\<close>.
\<close>

fun parse_isoformat_date :: "string \<Rightarrow> (nat \<times> nat \<times> nat) option" where
  "parse_isoformat_date [y1, y2, y3, y4, s1, m1, m2, s2, d1, d2] =
     (if is_digit y1 \<and> is_digit y2 \<and> is_digit y3 \<and> is_digit y4 \<and> s1 = CHR ''-''
         \<and> is_digit m1 \<and> is_digit m2 \<and> s2 = CHR ''-'' \<and> is_digit d1 \<and> is_digit d2
      then Some (1000 * digit_val y1 + 100 * digit_val y2 + 10 * digit_val y3 + digit_val y4,
                 10 * digit_val m1 + digit_val m2, 10 * digit_val d1 + digit_val d2)
      else None)"
| "parse_isoformat_date _ = None"

fun fromisoformat_date :: "(string \<Rightarrow> date option) \<Rightarrow> pyval \<Rightarrow> pyexc + date" where
  "fromisoformat_date other (PStr s) =
     (case parse_isoformat_date s of
        Some (y, m, d) \<Rightarrow> make_date y m d
      | None \<Rightarrow>
          (case other s of
             None \<Rightarrow> Inl (PyExc ''ValueError'')
           | Some dt \<Rightarrow> Inr dt))"
| "fromisoformat_date other _ = Inl (PyExc ''TypeError'')"

section \<open>The outside world\<close>

text \<open>
  A run is a function from the history of calls made so far to a result and the extended
  history. Each call of the source to the network, to the index, to the file system, to
  the catalog library or to the log appends one event. What such a call returns is given
  by the environment, as a function of the history before the call, so that a server or
  an index may answer differently after earlier calls of the same run.
\<close>

datatype json = JNull | JBool bool | JNum int | JStr string
  | JArr "json list" | JObj "(string \<times> json) list"

text \<open>The first argument of \<open>add_to_catalog\<close>: a \<open>dict\<close> or a \<open>Dataset\<close> object.\<close>

datatype catalog_arg = MetadataDict dict | DatasetObject dict

datatype event =
    HttpGet string
  | HttpHead pyval
  | IterDocs string
  | Log string string
  | TempFile
  | Download pyval string
  | JsonDump string json
  | AddToCatalog catalog_arg string
  | ReadExcel string string

record api_response =
  ok :: bool
  body :: "pyexc + json"

text \<open>
  \<^item> \<open>import_date\<close>: \<open>dt.date.today()\<close> when the module is loaded;
  \<^item> \<open>requests_get_catalog\<close>: \<open>requests.get(FAO_CATALOG_URL).json()["Datasets"]["Dataset"]\<close>,
    a list of descriptors;
  \<^item> \<open>requests_head\<close>: the headers of \<open>requests.head(url)\<close>;
  \<^item> \<open>dateutil_parse\<close>: \<open>parser.parse(s).date()\<close>;
  \<^item> \<open>fromisoformat_other\<close>: \<open>datetime.fromisoformat(s).date()\<close> for a string that is not
    a plain date \<open>YYYY-MM-DD\<close>, \<open>None\<close> when the library rejects it;
  \<^item> \<open>iter_docs\<close>: the file names and documents that \<open>iter_docs\<close> yields for the index
    partition of a namespace;
  \<^item> \<open>named_temporary_file\<close>: the name of the file \<open>tempfile.NamedTemporaryFile()\<close> opens;
  \<^item> \<open>files_download\<close>, \<open>add_to_catalog\<close>, \<open>json_dump\<close>: whether the call raises;
  \<^item> \<open>requests_get_api\<close>: the response of \<open>requests.get\<close> to an API address, with
    \<open>resp.ok\<close> and \<open>resp.json()\<close>;
  \<^item> \<open>datetime_today\<close>: the current date at the time of the call;
  \<^item> \<open>read_excel_notes\<close>: \<open>pd.read_excel(url, sheet_name="Notes").dropna().Notes.tolist()\<close>;
  \<^item> \<open>normalize_nfkd\<close>: \<open>unicodedata.normalize("NFKD", s)\<close>.
\<close>

record env =
  import_date :: date
  requests_get_catalog :: "event list \<Rightarrow> pyexc + dict list"
  requests_head :: "event list \<Rightarrow> pyval \<Rightarrow> pyexc + (string \<times> string) list"
  dateutil_parse :: "event list \<Rightarrow> string \<Rightarrow> pyexc + date"
  fromisoformat_other :: "string \<Rightarrow> date option"
  iter_docs :: "event list \<Rightarrow> string \<Rightarrow> (string \<times> dict) list"
  named_temporary_file :: "event list \<Rightarrow> pyexc + string"
  files_download :: "event list \<Rightarrow> pyval \<Rightarrow> string \<Rightarrow> pyexc + unit"
  add_to_catalog :: "event list \<Rightarrow> catalog_arg \<Rightarrow> string \<Rightarrow> pyexc + unit"
  requests_get_api :: "event list \<Rightarrow> string \<Rightarrow> pyexc + api_response"
  json_dump :: "event list \<Rightarrow> string \<Rightarrow> json \<Rightarrow> pyexc + unit"
  datetime_today :: "event list \<Rightarrow> date"
  read_excel_notes :: "event list \<Rightarrow> string \<Rightarrow> pyexc + string list"
  normalize_nfkd :: "string \<Rightarrow> string"

text \<open>
  Sequencing: an exception ends the computation and is its result. \<open>bindE\<close> chains pure
  steps, \<open>bindP\<close> continues a run after a pure step, \<open>bindS\<close> after a step that extends
  the history.
\<close>

definition bindE :: "pyexc + 'a \<Rightarrow> ('a \<Rightarrow> pyexc + 'b) \<Rightarrow> pyexc + 'b" where
  "bindE r f = (case r of Inl e \<Rightarrow> Inl e | Inr x \<Rightarrow> f x)"

definition bindP ::
  "pyexc + 'a \<Rightarrow> event list \<Rightarrow> ('a \<Rightarrow> (pyexc + 'b) \<times> event list) \<Rightarrow> (pyexc + 'b) \<times> event list"
where
  "bindP r tr f = (case r of Inl e \<Rightarrow> (Inl e, tr) | Inr x \<Rightarrow> f x)"

definition bindS ::
  "(pyexc + 'a) \<times> event list \<Rightarrow> ('a \<Rightarrow> event list \<Rightarrow> (pyexc + 'b) \<times> event list)
     \<Rightarrow> (pyexc + 'b) \<times> event list"
where
  "bindS r f = (case r of (Inl e, tr) \<Rightarrow> (Inl e, tr) | (Inr x, tr) \<Rightarrow> f x tr)"

section \<open>\<open>ingests/faostat.py\<close>\<close>

subsection \<open>Module constants\<close>

definition VERSION :: "env \<Rightarrow> string" where
  "VERSION env = isoformat (import_date env)"

definition NAMESPACE :: string where
  "NAMESPACE = ''faostat''"

definition FAO_DATA_URL :: string where
  "FAO_DATA_URL = ''http://www.fao.org/faostat/en/#data''"

definition SOURCE_NAME :: string where
  "SOURCE_NAME = ''Food and Agriculture Organization of the United Nations''"

definition LICENSE_URL :: string where
  "LICENSE_URL = ''http://www.fao.org/contact-us/terms/db-terms-of-use/en''"

definition LICENSE_NAME :: string where
  "LICENSE_NAME = ''CC BY-NC-SA 3.0 IGO''"

definition INCLUDED_DATASETS_CODES :: "string list" where
  "INCLUDED_DATASETS_CODES =
     [''ae'', ''af'', ''ef'', ''ei'', ''emn'', ''ep'', ''fbs'', ''fbsh'', ''fo'', ''fs'', ''lc'',
      ''oe'', ''qa'', ''qc'', ''qcl'', ''qd'', ''qi'', ''ql'', ''qp'', ''qv'', ''rfb'', ''rfn'',
      ''rl'', ''rp'', ''rt'']"

definition FAO_CATALOG_URL :: string where
  "FAO_CATALOG_URL = ''http://fenixservices.fao.org/faostat/static/bulkdownloads/datasets_E.json''"

text \<open>\<open>API_BASE_URL.format(domain=domain, category=category)\<close>\<close>

definition API_PREFIX :: string where
  "API_PREFIX = ''https://fenixservices.fao.org/faostat/api/v1/en/definitions/domain/''"

definition API_BASE_URL :: "string \<Rightarrow> string \<Rightarrow> string" where
  "API_BASE_URL domain category = API_PREFIX @ domain @ ''/'' @ category @ ''?output_type=objects''"

definition CATEGORIES :: "string list" where
  "CATEGORIES = [''itemgroup'', ''itemsgroup'', ''area'', ''element'', ''unit'', ''flag'']"

definition GIT_URL_TO_WALDEN :: string where
  "GIT_URL_TO_WALDEN = ''https://github.com/owid/walden/''"

definition GIT_URL_TO_THIS_FILE :: string where
  "GIT_URL_TO_THIS_FILE = GIT_URL_TO_WALDEN @ ''blob/master/ingests/faostat.py''"

subsection \<open>\<open>class FAODataset\<close>\<close>

record FAODataset =
  dataset_metadata :: dict
  dataset_server_metadata :: "(string \<times> string) list"

text \<open>
  The headers of a response are a case-insensitive dictionary, given here by its items: a
  key is found whatever its case, and a missing key raises \<open>KeyError\<close>.
\<close>

definition header_subscript :: "(string \<times> string) list \<Rightarrow> string \<Rightarrow> pyexc + string" where
  "header_subscript hs k =
     (case map_of (map (\<lambda>(n, v). (lower n, v)) hs) (lower k) of
        None \<Rightarrow> Inl (PyExc ''KeyError'')
      | Some v \<Rightarrow> Inr v)"

definition source_data_url :: "FAODataset \<Rightarrow> pyexc + pyval" where
  "source_data_url self = subscript (dataset_metadata self) ''FileLocation''"

text \<open>
  \<open>__init__\<close> stores the descriptor and fetches the header of the dataset file on the
  server with \<open>requests.head(self.source_data_url)\<close>.
\<close>

definition FAODataset_init ::
  "env \<Rightarrow> dict \<Rightarrow> event list \<Rightarrow> (pyexc + FAODataset) \<times> event list"
where
  "FAODataset_init env description tr =
     (let self = \<lparr>dataset_metadata = description, dataset_server_metadata = []\<rparr>
      in bindP (source_data_url self) tr (\<lambda>url.
         bindS (requests_head env tr url, tr @ [HttpHead url]) (\<lambda>headers tr1.
         (Inr (self\<lparr>dataset_server_metadata := headers\<rparr>), tr1))))"

definition publication_date :: "env \<Rightarrow> FAODataset \<Rightarrow> pyexc + date" where
  "publication_date env self =
     bindE (subscript (dataset_metadata self) ''DateUpdate'')
       (fromisoformat_date (fromisoformat_other env))"

definition publication_year :: "env \<Rightarrow> FAODataset \<Rightarrow> pyexc + nat" where
  "publication_year env self = bindE (publication_date env self) (\<lambda>d. Inr (year d))"

definition modification_date :: "env \<Rightarrow> FAODataset \<Rightarrow> event list \<Rightarrow> pyexc + date" where
  "modification_date env self tr =
     bindE (header_subscript (dataset_server_metadata self) ''Last-modified'')
       (dateutil_parse env tr)"

definition short_name :: "FAODataset \<Rightarrow> pyexc + string" where
  "short_name self =
     bindE (subscript (dataset_metadata self) ''DatasetCode'') (\<lambda>code.
     bindE (py_lower code) (\<lambda>l.
     Inr (NAMESPACE @ ''_'' @ l)))"

text \<open>The entries of the dictionary are evaluated in the order they are written.\<close>

definition metadata :: "env \<Rightarrow> FAODataset \<Rightarrow> pyexc + dict" where
  "metadata env self =
     bindE (short_name self) (\<lambda>sn.
     bindE (subscript (dataset_metadata self) ''DatasetName'') (\<lambda>dn.
     bindE (publication_year env self) (\<lambda>y1.
     bindE (subscript (dataset_metadata self) ''DatasetDescription'') (\<lambda>descr.
     bindE (publication_year env self) (\<lambda>y2.
     bindE (publication_date env self) (\<lambda>pd.
     bindE (source_data_url self) (\<lambda>url.
     Inr [(''namespace'', PStr NAMESPACE),
          (''short_name'', PStr sn),
          (''name'', PStr (py_str dn @ '' - FAO ('' @ str_nat y1 @ '')'')),
          (''description'', descr),
          (''source_name'', PStr SOURCE_NAME),
          (''publication_year'', PInt (int y2)),
          (''publication_date'', PStr (isoformat pd)),
          (''date_accessed'', PStr (VERSION env)),
          (''version'', PStr (VERSION env)),
          (''url'', PStr FAO_DATA_URL),
          (''source_data_url'', url),
          (''file_extension'', PStr ''zip''),
          (''license_url'', PStr LICENSE_URL),
          (''license_name'', PStr LICENSE_NAME)])))))))"

text \<open>
  \<open>to_walden\<close>: open a temporary file, download the dataset into it, then build the
  metadata and add the file to the catalog.
\<close>

definition to_walden :: "env \<Rightarrow> FAODataset \<Rightarrow> event list \<Rightarrow> (pyexc + unit) \<times> event list" where
  "to_walden env self tr =
     bindS (named_temporary_file env tr, tr @ [TempFile]) (\<lambda>f tr1.
     bindP (source_data_url self) tr1 (\<lambda>url.
     bindS (files_download env tr1 url f, tr1 @ [Download url f]) (\<lambda>_ tr2.
     bindP (metadata env self) tr2 (\<lambda>md.
     (add_to_catalog env tr2 (MetadataDict md) f, tr2 @ [AddToCatalog (MetadataDict md) f])))))"

subsection \<open>\<open>is_dataset_already_up_to_date\<close>\<close>

text \<open>
  The loop over the documents of the index, with the flag \<open>dataset_up_to_date\<close> as
  accumulator. Reading \<open>date_accessed\<close> comes before the comparison, for every document.
\<close>

fun scan_index ::
  "pyval \<Rightarrow> date \<Rightarrow> (string \<times> dict) list \<Rightarrow> bool \<Rightarrow> event list \<Rightarrow> (pyexc + bool) \<times> event list"
where
  "scan_index url modified [] up tr = (Inr up, tr)"
| "scan_index url modified ((filename, index_file) # rest) up tr =
     (let index_file_source_data_url = dict_get index_file ''source_data_url''
      in bindP (strptime_ymd (dict_get index_file ''date_accessed'')) tr
           (\<lambda>index_file_date_accessed.
              if index_file_source_data_url = url \<and> date_gt index_file_date_accessed modified
              then scan_index url modified rest True
                     (tr @ [Log ''INFO''
                        (''Dataset is already up-to-date (index file: '' @ filename @ '').'')])
              else scan_index url modified rest up tr))"

definition is_dataset_already_up_to_date ::
  "env \<Rightarrow> pyval \<Rightarrow> date \<Rightarrow> event list \<Rightarrow> (pyexc + bool) \<times> event list"
where
  "is_dataset_already_up_to_date env url modified tr =
     scan_index url modified (iter_docs env tr NAMESPACE) False (tr @ [IterDocs NAMESPACE])"

subsection \<open>\<open>class FAOAdditionalMetadata\<close>\<close>

record FAOAdditionalMetadata =
  am_publication_date :: date
  am_publication_year :: nat

definition FAOAdditionalMetadata_init :: "env \<Rightarrow> event list \<Rightarrow> FAOAdditionalMetadata" where
  "FAOAdditionalMetadata_init env tr =
     (let d = datetime_today env tr
      in \<lparr>am_publication_date = d, am_publication_year = year d\<rparr>)"

definition create_metadata :: "env \<Rightarrow> FAOAdditionalMetadata \<Rightarrow> catalog_arg" where
  "create_metadata env self =
     DatasetObject
       [(''namespace'', PStr NAMESPACE),
        (''short_name'', PStr (NAMESPACE @ ''_metadata'')),
        (''name'', PStr (''Metadata and identifiers - FAO ('' @ str_nat (am_publication_year self)
                          @ '')'')),
        (''source_name'', PStr SOURCE_NAME),
        (''url'', PStr FAO_DATA_URL),
        (''description'', PStr ''Metadata and identifiers used in FAO datasets''),
        (''date_accessed'', PStr (VERSION env)),
        (''version'', PStr (VERSION env)),
        (''publication_year'', PInt (int (am_publication_year self))),
        (''publication_date'', PDate (am_publication_date self)),
        (''file_extension'', PStr ''json''),
        (''license_name'', PStr LICENSE_NAME),
        (''license_url'', PStr LICENSE_URL),
        (''access_notes'', PStr (''API snapshot captured by script at '' @ GIT_URL_TO_THIS_FILE))]"

text \<open>\<open>d[k] = v\<close> on a dictionary of documents.\<close>

fun dict_set :: "(string \<times> json) list \<Rightarrow> string \<Rightarrow> json \<Rightarrow> (string \<times> json) list" where
  "dict_set [] k v = [(k, v)]"
| "dict_set ((k', v') # d) k v = (if k' = k then (k', v) # d else (k', v') # dict_set d k v)"

text \<open>The inner loop of \<open>_fetch_additional_metadata\<close>, over the categories of one domain.\<close>

fun fetch_categories ::
  "env \<Rightarrow> string \<Rightarrow> string list \<Rightarrow> (string \<times> json) list \<Rightarrow> event list
     \<Rightarrow> (pyexc + (string \<times> json) list) \<times> event list"
where
  "fetch_categories env domain [] domain_meta tr = (Inr domain_meta, tr)"
| "fetch_categories env domain (category # cs) domain_meta tr =
     bindS (requests_get_api env tr (API_BASE_URL domain category),
            tr @ [HttpGet (API_BASE_URL domain category)]) (\<lambda>resp tr1.
       if ok resp
       then bindP (body resp) tr1 (\<lambda>doc.
              fetch_categories env domain cs (dict_set domain_meta category doc) tr1)
       else fetch_categories env domain cs domain_meta tr1)"

text \<open>The outer loop, over the domains.\<close>

fun fetch_domains ::
  "env \<Rightarrow> string list \<Rightarrow> (string \<times> json) list \<Rightarrow> event list
     \<Rightarrow> (pyexc + (string \<times> json) list) \<times> event list"
where
  "fetch_domains env [] metadata_combined tr = (Inr metadata_combined, tr)"
| "fetch_domains env (domain # ds) metadata_combined tr =
     bindS (fetch_categories env domain CATEGORIES []
              (tr @ [Log ''INFO'' (''Fetching additional metadata for domain '' @ domain @ ''.'')]))
       (\<lambda>domain_meta tr1.
          fetch_domains env ds (dict_set metadata_combined domain (JObj domain_meta)) tr1)"

definition fetch_additional_metadata ::
  "env \<Rightarrow> string \<Rightarrow> event list \<Rightarrow> (pyexc + (string \<times> json) list) \<times> event list"
where
  "fetch_additional_metadata env output_filename tr =
     bindS (fetch_domains env INCLUDED_DATASETS_CODES [] tr) (\<lambda>metadata_combined tr1.
     bindS (json_dump env tr1 output_filename (JObj metadata_combined),
            tr1 @ [JsonDump output_filename (JObj metadata_combined)]) (\<lambda>_ tr2.
     (Inr metadata_combined, tr2)))"

definition additional_to_walden ::
  "env \<Rightarrow> FAOAdditionalMetadata \<Rightarrow> event list \<Rightarrow> (pyexc + unit) \<times> event list"
where
  "additional_to_walden env self tr =
     bindS (named_temporary_file env tr, tr @ [TempFile]) (\<lambda>f tr1.
     bindS (fetch_additional_metadata env f tr1) (\<lambda>_ tr2.
     (add_to_catalog env tr2 (create_metadata env self) f,
      tr2 @ [AddToCatalog (create_metadata env self) f])))"

subsection \<open>\<open>main\<close>\<close>

definition load_faostat_catalog :: "env \<Rightarrow> event list \<Rightarrow> (pyexc + dict list) \<times> event list" where
  "load_faostat_catalog env tr = (requests_get_catalog env tr, tr @ [HttpGet FAO_CATALOG_URL])"

text \<open>
  The body of the loop of \<open>main\<close> for one descriptor, with the flag
  \<open>any_dataset_was_updated\<close> passed in and returned.
\<close>

definition loop_body ::
  "env \<Rightarrow> dict \<Rightarrow> bool \<Rightarrow> event list \<Rightarrow> (pyexc + bool) \<times> event list"
where
  "loop_body env description any_dataset_was_updated tr =
     bindP (subscript description ''DatasetCode'') tr (\<lambda>code.
     bindP (py_lower code) tr (\<lambda>l.
     if l \<in> set INCLUDED_DATASETS_CODES
     then bindS (FAODataset_init env description tr) (\<lambda>faostat_dataset tr1.
          bindP (source_data_url faostat_dataset) tr1 (\<lambda>url.
          bindP (modification_date env faostat_dataset tr1) tr1 (\<lambda>modified.
          bindS (is_dataset_already_up_to_date env url modified tr1) (\<lambda>up tr2.
            if up then (Inr any_dataset_was_updated, tr2)
            else bindS (to_walden env faostat_dataset tr2) (\<lambda>_ tr3. (Inr True, tr3))))))
     else (Inr any_dataset_was_updated, tr)))"

fun main_loop ::
  "env \<Rightarrow> dict list \<Rightarrow> bool \<Rightarrow> event list \<Rightarrow> (pyexc + bool) \<times> event list"
where
  "main_loop env [] any_dataset_was_updated tr = (Inr any_dataset_was_updated, tr)"
| "main_loop env (description # rest) any_dataset_was_updated tr =
     bindS (loop_body env description any_dataset_was_updated tr) (main_loop env rest)"

definition no_need_message :: string where
  "no_need_message = ''No need to fetch additional metadata, since all datasets are up-to-date.''"

definition main :: "env \<Rightarrow> event list \<Rightarrow> (pyexc + unit) \<times> event list" where
  "main env tr =
     bindS (load_faostat_catalog env tr) (\<lambda>faostat_catalog tr1.
     bindS (main_loop env faostat_catalog False tr1) (\<lambda>any_dataset_was_updated tr2.
       if any_dataset_was_updated
       then additional_to_walden env (FAOAdditionalMetadata_init env tr2) tr2
       else (Inr (), tr2 @ [Log ''INFO'' no_need_message])))"

section \<open>\<open>ingests/wb_income_groups.py\<close>\<close>

definition SOURCE_DATA_URL :: string where
  "SOURCE_DATA_URL = ''http://databank.worldbank.org/data/download/site-content/CLASS.xlsx''"

text \<open>\<open>sep.join(xs)\<close>\<close>

fun join :: "string \<Rightarrow> string list \<Rightarrow> string" where
  "join sep [] = []"
| "join sep [x] = x"
| "join sep (x # y # ys) = x @ sep @ join sep (y # ys)"

definition load_metadata_description :: "env \<Rightarrow> event list \<Rightarrow> (pyexc + string) \<times> event list" where
  "load_metadata_description env tr =
     bindS (read_excel_notes env tr SOURCE_DATA_URL, tr @ [ReadExcel SOURCE_DATA_URL ''Notes''])
       (\<lambda>notes tr1. (Inr (normalize_nfkd env (join [CHR 0x0A, CHR 0x0A] notes)), tr1))"

text \<open>
  \<open>d.strftime("%Y-%m-%d")\<close> of a date, as the C library of Linux formats it: the year in
  decimal without padding, month and day with two digits. It is the text of \<open>isoformat\<close>
  for the years from 1000 on.
\<close>

fun strftime_ymd :: "date \<Rightarrow> string" where
  "strftime_ymd (Date y m d) = str_nat y @ ''-'' @ zfill 2 m @ ''-'' @ zfill 2 d"

definition create_metadata_dict :: "env \<Rightarrow> event list \<Rightarrow> (pyexc + dict) \<times> event list" where
  "create_metadata_dict env tr =
     bindS (load_metadata_description env tr) (\<lambda>descr tr1.
     (Inr [(''namespace'', PStr ''wb''),
           (''short_name'', PStr ''wb_income''),
           (''name'', PStr ''World Bank list of economies (June 2021)''),
           (''source_name'', PStr ''World Bank''),
           (''url'', PStr ''https://datahelpdesk.worldbank.org/knowledgebase/articles/906519-world-bank-country-and-lending-groups''),
           (''source_data_url'', PStr SOURCE_DATA_URL),
           (''description'', PStr descr),
           (''date_accessed'', PStr (strftime_ymd (datetime_today env tr1))),
           (''publication_year'', PInt 2021),
           (''publication_date'', PStr ''2021-07-01''),
           (''owid_data_url'', PStr ''https://walden.nyc3.digitaloceanspaces.com/wb/2021-07-01/wb_income.xlsx''),
           (''file_extension'', PStr ''xlsx''),
           (''license_name'', PStr ''CC BY 4.0''),
           (''license_url'', PStr ''https://www.worldbank.org/en/about/legal/terms-of-use-for-datasets'')],
      tr1))"

definition income_sentence :: string where
  "income_sentence =
     ''Income classifications set on 1 July 2021 remain in effect until 1 July 2022''"

text \<open>\<open>s not in x\<close> is a substring test on a \<open>str\<close>; no other value here can be searched.\<close>

fun py_contains :: "pyval \<Rightarrow> string \<Rightarrow> pyexc + bool" where
  "py_contains (PStr x) s = Inr (sublist s x)"
| "py_contains _ s = Inl (PyExc ''TypeError'')"

definition check_date :: "dict \<Rightarrow> pyexc + unit" where
  "check_date md =
     bindE (subscript md ''description'') (\<lambda>descr.
     bindE (py_contains descr income_sentence) (\<lambda>found.
     if \<not> found then Inl (PyExc ''ValueError'') else Inr ()))"

definition wb_main :: "env \<Rightarrow> event list \<Rightarrow> (pyexc + unit) \<times> event list" where
  "wb_main env tr =
     bindS (create_metadata_dict env tr) (\<lambda>md tr1.
     bindP (check_date md) tr1 (\<lambda>_.
     bindS (named_temporary_file env tr1, tr1 @ [TempFile]) (\<lambda>f tr2.
     bindP (subscript md ''source_data_url'') tr2 (\<lambda>url.
     bindS (files_download env tr2 url f, tr2 @ [Download url f]) (\<lambda>_ tr3.
     (add_to_catalog env tr3 (MetadataDict md) f, tr3 @ [AddToCatalog (MetadataDict md) f]))))))"

section \<open>Properties of a run\<close>

text \<open>The date an index document records as \<open>date_accessed\<close>, as the scan reads it.\<close>

definition date_accessed_of :: "dict \<Rightarrow> pyexc + date" where
  "date_accessed_of doc = strptime_ymd (dict_get doc ''date_accessed'')"

text \<open>
  An index document makes a candidate up to date: it has the candidate's address and was
  accessed strictly after the candidate's modification date.
\<close>

definition later_record :: "pyval \<Rightarrow> date \<Rightarrow> dict \<Rightarrow> bool" where
  "later_record url modified doc =
     (dict_get doc ''source_data_url'' = url \<and>
      (case date_accessed_of doc of Inl e \<Rightarrow> False | Inr d \<Rightarrow> date_gt d modified))"

text \<open>Kinds of events in a history.\<close>

fun is_log :: "event \<Rightarrow> bool" where
  "is_log (Log level msg) = True"
| "is_log _ = False"

text \<open>
  The test of \<open>main\<close> on a descriptor: its \<open>DatasetCode\<close> is a string whose lower case
  is in \<open>INCLUDED_DATASETS_CODES\<close>. \<open>file_location\<close> is the address the descriptor
  gives for its file.
\<close>

definition allow_listed :: "dict \<Rightarrow> bool" where
  "allow_listed d =
     (case subscript d ''DatasetCode'' of
        Inl e \<Rightarrow> False
      | Inr code \<Rightarrow> (case py_lower code of Inl e \<Rightarrow> False | Inr l \<Rightarrow> l \<in> set INCLUDED_DATASETS_CODES))"

definition file_location :: "dict \<Rightarrow> pyval" where
  "file_location d = dict_get d ''FileLocation''"

text \<open>The addresses of the header requests of a history, in order.\<close>

fun probes :: "event list \<Rightarrow> pyval list" where
  "probes [] = []"
| "probes (HttpHead url # tr) = url # probes tr"
| "probes (ev # tr) = probes tr"

fun is_consult :: "event \<Rightarrow> bool" where
  "is_consult (IterDocs ns) = True"
| "is_consult _ = False"

fun is_download :: "event \<Rightarrow> bool" where
  "is_download (Download url f) = True"
| "is_download _ = False"

text \<open>
  A commit of a primary dataset passes a \<open>dict\<close> to \<open>add_to_catalog\<close>, the commit of
  the additional metadata a \<open>Dataset\<close> object. An API request is a \<open>GET\<close> of an address
  under \<open>API_PREFIX\<close>.
\<close>

fun is_primary_commit :: "event \<Rightarrow> bool" where
  "is_primary_commit (AddToCatalog (MetadataDict md) f) = True"
| "is_primary_commit _ = False"

fun is_aux_commit :: "event \<Rightarrow> bool" where
  "is_aux_commit (AddToCatalog (DatasetObject md) f) = True"
| "is_aux_commit _ = False"

fun is_api_call :: "event \<Rightarrow> bool" where
  "is_api_call (HttpGet url) = prefix API_PREFIX url"
| "is_api_call _ = False"

text \<open>
  A record carries the tag \<open>v\<close>: both \<open>version\<close> and \<open>date_accessed\<close> are \<open>v\<close>. An
  event is \<open>versioned\<close> when the record it commits, if it commits one, carries the tag
  \<open>VERSION\<close> of the run.
\<close>

definition carries_version :: "string \<Rightarrow> dict \<Rightarrow> bool" where
  "carries_version v md =
     (map_of md ''version'' = Some (PStr v) \<and> map_of md ''date_accessed'' = Some (PStr v))"

fun commit_record :: "event \<Rightarrow> dict option" where
  "commit_record (AddToCatalog (MetadataDict md) f) = Some md"
| "commit_record (AddToCatalog (DatasetObject md) f) = Some md"
| "commit_record _ = None"

definition versioned :: "env \<Rightarrow> event \<Rightarrow> bool" where
  "versioned env ev =
     (case commit_record ev of None \<Rightarrow> True | Some md \<Rightarrow> carries_version (VERSION env) md)"

text \<open>
  The loop of \<open>main\<close>, run for the descriptor \<open>d\<close> after the history \<open>h\<close>, finds the dataset
  stale: \<open>url\<close> is the \<open>FileLocation\<close> of \<open>d\<close>, the header request for \<open>url\<close> returns
  \<open>headers\<close>, the modification date read from these headers is \<open>m\<close>, and the freshness
  check called with \<open>url\<close> and \<open>m\<close> returns false.
\<close>

definition found_stale :: "env \<Rightarrow> dict \<Rightarrow> event list \<Rightarrow> pyval \<Rightarrow> bool" where
  "found_stale env d h url =
     (\<exists>headers m.
        subscript d ''FileLocation'' = Inr url
      \<and> requests_head env h url = Inr headers
      \<and> modification_date env \<lparr>dataset_metadata = d, dataset_server_metadata = headers\<rparr>
            (h @ [HttpHead url]) = Inr m
      \<and> is_dataset_already_up_to_date env url m (h @ [HttpHead url])
          = (Inr False, h @ [HttpHead url, IterDocs NAMESPACE]))"

text \<open>
  The history \<open>h\<close> ends with the header request and the freshness check for an
  allow-listed descriptor of the catalog whose \<open>FileLocation\<close> is \<open>url\<close>, the check returned
  false, and a temporary file was opened next.
\<close>

definition oracle_said_stale :: "env \<Rightarrow> event list \<Rightarrow> pyval \<Rightarrow> bool" where
  "oracle_said_stale env h url =
     (\<exists>h0 catalog d. h = h0 @ [HttpHead url, IterDocs NAMESPACE, TempFile]
        \<and> requests_get_catalog env [] = Inr catalog \<and> d \<in> set catalog \<and> allow_listed d
        \<and> found_stale env d h0 url)"

text \<open>
  What must come right before an event, \<open>h\<close> being the history before it: before a
  download, the freshness check that returned false for its address; before the commit of
  a primary dataset, the download into the same file. \<open>gated_from env h tr\<close> says so of
  every event of \<open>tr\<close>, which continues the history \<open>h\<close>.
\<close>

fun gate_ok :: "env \<Rightarrow> event list \<Rightarrow> event \<Rightarrow> bool" where
  "gate_ok env h (Download url f) = oracle_said_stale env h url"
| "gate_ok env h (AddToCatalog (MetadataDict md) f) = (\<exists>h0 url. h = h0 @ [Download url f])"
| "gate_ok env h ev = True"

fun gated_from :: "env \<Rightarrow> event list \<Rightarrow> event list \<Rightarrow> bool" where
  "gated_from env h [] = True"
| "gated_from env h (ev # rest) = (gate_ok env h ev \<and> gated_from env (h @ [ev]) rest)"

text \<open>The events that the refresh of the additional metadata can add to a history.\<close>

fun is_aux_kind :: "event \<Rightarrow> bool" where
  "is_aux_kind TempFile = True"
| "is_aux_kind (Log level msg) = True"
| "is_aux_kind (HttpGet url) = True"
| "is_aux_kind (JsonDump f doc) = True"
| "is_aux_kind (AddToCatalog (DatasetObject md) f) = True"
| "is_aux_kind _ = False"

text \<open>The API addresses, one for each domain and category, in the order they are requested.\<close>

definition all_api_urls :: "string list" where
  "all_api_urls = concat (map (\<lambda>domain. map (API_BASE_URL domain) CATEGORIES) INCLUDED_DATASETS_CODES)"

section \<open>Sample worlds\<close>

text \<open>Two addresses, and three descriptors of the catalog: two allow-listed ones and one that is not.\<close>

definition ae_url :: pyval where
  "ae_url = PStr ''https://x/ae.zip''"

definition af_url :: pyval where
  "af_url = PStr ''https://x/af.zip''"

definition desc_ae :: dict where
  "desc_ae =
     [(''DatasetCode'', PStr ''AE''), (''DatasetName'', PStr ''ASTI-Expenditures''),
      (''DatasetDescription'', PStr ''Research spending''), (''DateUpdate'', PStr ''2021-05-20''),
      (''FileLocation'', ae_url)]"

definition desc_af :: dict where
  "desc_af =
     [(''DatasetCode'', PStr ''AF''), (''DatasetName'', PStr ''ASTI-Researchers''),
      (''DatasetDescription'', PStr ''Research staff''), (''DateUpdate'', PStr ''2021-05-21''),
      (''FileLocation'', af_url)]"

definition desc_zz :: dict where
  "desc_zz =
     [(''DatasetCode'', PStr ''ZZ''), (''DatasetName'', PStr ''Not enabled''),
      (''DatasetDescription'', PStr ''A dataset outside the list''),
      (''DateUpdate'', PStr ''2021-05-22''), (''FileLocation'', PStr ''https://x/zz.zip'')]"

definition last_modified_text :: string where
  "last_modified_text = ''Thu, 03 Jun 2021 10:00:00 GMT''"

text \<open>Index documents for the address \<open>ae_url\<close> and for another one.\<close>

definition doc_later :: dict where
  "doc_later = [(''source_data_url'', ae_url), (''date_accessed'', PStr ''2021-06-04'')]"

definition doc_same_day :: dict where
  "doc_same_day = [(''source_data_url'', ae_url), (''date_accessed'', PStr ''2021-06-03'')]"

definition doc_af_later :: dict where
  "doc_af_later = [(''source_data_url'', af_url), (''date_accessed'', PStr ''2021-06-04'')]"

definition doc_malformed :: dict where
  "doc_malformed = [(''source_data_url'', ae_url), (''date_accessed'', PStr ''04/06/2021'')]"

text \<open>
  A world on 5 June 2021: the catalog lists \<open>AE\<close>, \<open>ZZ\<close> and \<open>AF\<close>, every file on the
  server was last modified on 3 June, the index holds a document of 4 June for \<open>AF\<close>
  only, no call fails, and the API answers every request with a response that is not
  \<open>ok\<close>. Of the strings that are not a plain date, \<open>datetime.fromisoformat\<close> accepts the
  one with a time of day and rejects the others, among them the free text of the samples. The description read from the spreadsheet contains the sentence about 2021.
\<close>

definition sample_env :: env where
  "sample_env =
     \<lparr>import_date = Date 2021 6 5,
      requests_get_catalog = (\<lambda>tr. Inr [desc_ae, desc_zz, desc_af]),
      requests_head = (\<lambda>tr url. Inr [(''Last-Modified'', last_modified_text)]),
      dateutil_parse =
        (\<lambda>tr s. if s = last_modified_text then Inr (Date 2021 6 3)
                 else Inl (PyExc ''ParserError'')),
      fromisoformat_other =
        (\<lambda>s. if s = ''2021-05-20T00:00:00'' then Some (Date 2021 5 20) else None),
      iter_docs = (\<lambda>tr ns. [(''faostat/2021-06-04/faostat_af.json'', doc_af_later)]),
      named_temporary_file = (\<lambda>tr. Inr ''/tmp/tmp0''),
      files_download = (\<lambda>tr url f. Inr ()),
      add_to_catalog = (\<lambda>tr md f. Inr ()),
      requests_get_api = (\<lambda>tr url. Inr \<lparr>ok = False, body = Inl (PyExc ''JSONDecodeError'')\<rparr>),
      json_dump = (\<lambda>tr f doc. Inr ()),
      datetime_today = (\<lambda>tr. Date 2021 6 5),
      read_excel_notes =
        (\<lambda>tr url. Inr [''Note.'',
           ''Income classifications set on 1 July 2021 remain in effect until 1 July 2022.'']),
      normalize_nfkd = (\<lambda>s. s)\<rparr>"

text \<open>The same world with another index partition.\<close>

definition with_index :: "env \<Rightarrow> (string \<times> dict) list \<Rightarrow> env" where
  "with_index env docs = env\<lparr>iter_docs := (\<lambda>tr ns. docs)\<rparr>"

text \<open>A world in which both allow-listed datasets are up to date.\<close>

definition fresh_env :: env where
  "fresh_env =
     with_index sample_env
       [(''faostat/2021-06-04/faostat_ae.json'', doc_later),
        (''faostat/2021-06-04/faostat_af.json'', doc_af_later)]"

text \<open>A world in which the header request for \<open>AE\<close> raises.\<close>

definition head_fails_env :: env where
  "head_fails_env =
     sample_env\<lparr>requests_head :=
       (\<lambda>tr url. if url = ae_url then Inl (PyExc ''ConnectionError'')
                   else Inr [(''Last-Modified'', last_modified_text)])\<rparr>"

text \<open>A world in which the \<open>Last-Modified\<close> header of \<open>AF\<close> is not a date.\<close>

definition parse_fails_env :: env where
  "parse_fails_env =
     sample_env\<lparr>requests_head :=
       (\<lambda>tr url. if url = af_url then Inr [(''Last-Modified'', ''yesterday'')]
                   else Inr [(''Last-Modified'', last_modified_text)])\<rparr>"

text \<open>A world in which every request to the API fails.\<close>

definition api_fails_env :: env where
  "api_fails_env =
     sample_env\<lparr>requests_get_api := (\<lambda>tr url. Inl (PyExc ''ConnectionError''))\<rparr>"

text \<open>A world in which no response has a \<open>Last-Modified\<close> header.\<close>

definition no_header_env :: env where
  "no_header_env = sample_env\<lparr>requests_head := (\<lambda>tr url. Inr [])\<rparr>"

text \<open>The metadata record of \<open>AE\<close> in the sample world, and the record of the World Bank pipeline.\<close>

definition md_ae :: dict where
  "md_ae =
     [(''namespace'', PStr ''faostat''),
      (''short_name'', PStr ''faostat_ae''),
      (''name'', PStr ''ASTI-Expenditures - FAO (2021)''),
      (''description'', PStr ''Research spending''),
      (''source_name'', PStr ''Food and Agriculture Organization of the United Nations''),
      (''publication_year'', PInt 2021),
      (''publication_date'', PStr ''2021-05-20''),
      (''date_accessed'', PStr ''2021-06-05''),
      (''version'', PStr ''2021-06-05''),
      (''url'', PStr ''http://www.fao.org/faostat/en/#data''),
      (''source_data_url'', PStr ''https://x/ae.zip''),
      (''file_extension'', PStr ''zip''),
      (''license_url'', PStr ''http://www.fao.org/contact-us/terms/db-terms-of-use/en''),
      (''license_name'', PStr ''CC BY-NC-SA 3.0 IGO'')]"

definition wb_md :: dict where
  "wb_md =
     [(''namespace'', PStr ''wb''),
      (''short_name'', PStr ''wb_income''),
      (''name'', PStr ''World Bank list of economies (June 2021)''),
      (''source_name'', PStr ''World Bank''),
      (''url'', PStr ''https://datahelpdesk.worldbank.org/knowledgebase/articles/906519-world-bank-country-and-lending-groups''),
      (''source_data_url'', PStr ''http://databank.worldbank.org/data/download/site-content/CLASS.xlsx''),
      (''description'', PStr (''Note.'' @ [CHR 0x0A, CHR 0x0A] @
          ''Income classifications set on 1 July 2021 remain in effect until 1 July 2022.'')),
      (''date_accessed'', PStr ''2021-06-05''),
      (''publication_year'', PInt 2021),
      (''publication_date'', PStr ''2021-07-01''),
      (''owid_data_url'', PStr ''https://walden.nyc3.digitaloceanspaces.com/wb/2021-07-01/wb_income.xlsx''),
      (''file_extension'', PStr ''xlsx''),
      (''license_name'', PStr ''CC BY 4.0''),
      (''license_url'', PStr ''https://www.worldbank.org/en/about/legal/terms-of-use-for-datasets'')]"

text \<open>The message the freshness check logs for an index file, and the history of the loop in the sample world.\<close>

definition up_to_date_message :: "string \<Rightarrow> string" where
  "up_to_date_message filename = ''Dataset is already up-to-date (index file: '' @ filename @ '').''"

definition sample_loop_trace :: "event list" where
  "sample_loop_trace =
     [HttpGet FAO_CATALOG_URL,
      HttpHead ae_url, IterDocs NAMESPACE, TempFile, Download ae_url ''/tmp/tmp0'',
      AddToCatalog (MetadataDict md_ae) ''/tmp/tmp0'',
      HttpHead af_url, IterDocs NAMESPACE,
      Log ''INFO'' (up_to_date_message ''faostat/2021-06-04/faostat_af.json'')]"

text \<open>A descriptor whose update date is written in free text.\<close>

definition desc_free_text :: dict where
  "desc_free_text =
     [(''DatasetCode'', PStr ''AE''), (''DatasetName'', PStr ''ASTI-Expenditures''),
      (''DatasetDescription'', PStr ''Research spending''), (''DateUpdate'', PStr ''June 1, 2021''),
      (''FileLocation'', ae_url)]"

text \<open>A descriptor whose update date has a time of day.\<close>

definition desc_with_time :: dict where
  "desc_with_time =
     [(''DatasetCode'', PStr ''AE''), (''DatasetName'', PStr ''ASTI-Expenditures''),
      (''DatasetDescription'', PStr ''Research spending''),
      (''DateUpdate'', PStr ''2021-05-20T00:00:00''), (''FileLocation'', ae_url)]"

text \<open>A world in which the notes of the spreadsheet are about the following year.\<close>

definition old_notes_env :: env where
  "old_notes_env =
     sample_env\<lparr>read_excel_notes :=
       (\<lambda>tr url. Inr [''Income classifications set on 1 July 2022 remain in effect until 1 July 2023.''])\<rparr>"

section \<open>Basic facts\<close>

lemma bindE_simps [simp]: "bindE (Inl e) f = Inl e" "bindE (Inr x) f = f x"
  by (simp_all add: bindE_def)

lemma bindP_simps [simp]: "bindP (Inl e) tr f = (Inl e, tr)" "bindP (Inr x) tr f = f x"
  by (simp_all add: bindP_def)

lemma bindS_simps [simp]: "bindS (Inl e, tr) f = (Inl e, tr)" "bindS (Inr x, tr) f = f x tr"
  by (simp_all add: bindS_def)

lemma date_gt_irrefl [simp]: "\<not> date_gt d d"
  by (cases d) simp

lemma strptime_errors:
  "strptime_ymd v = Inl e \<Longrightarrow> e = PyExc ''ValueError'' \<or> e = PyExc ''TypeError''"
  by (cases v) (auto simp: make_date_def split: option.splits if_splits)

text \<open>The dates of the sample documents, as \<open>strptime\<close> reads them.\<close>

lemma strptime_samples:
  "strptime_ymd (PStr ''2021-06-04'') = Inr (Date 2021 6 4)"
  "strptime_ymd (PStr ''2021-06-03'') = Inr (Date 2021 6 3)"
  "strptime_ymd (PStr ''04/06/2021'') = Inl (PyExc ''ValueError'')"
  by (simp_all add: match_ymd_def is_digit_def is_digit19_def digit_val_def make_date_def
      valid_date_def days_in_month_def)

declare strptime_ymd.simps(1) [simp del]

lemmas doc_defs = doc_later_def doc_same_day_def doc_af_later_def doc_malformed_def
  ae_url_def af_url_def dict_get_def date_accessed_of_def later_record_def

section \<open>The freshness check\<close>

lemma scan_index_all_parse:
  "\<forall>(f, doc) \<in> set docs. \<exists>d. date_accessed_of doc = Inr d \<Longrightarrow>
   fst (scan_index url m docs up tr) =
     Inr (up \<or> (\<exists>(f, doc) \<in> set docs. later_record url m doc))"
proof (induction docs arbitrary: up tr)
  case Nil
  then show ?case by simp
next
  case (Cons p docs)
  obtain f doc where p: "p = (f, doc)" by (cases p)
  from Cons.prems p obtain d where d: "date_accessed_of doc = Inr d" by auto
  from Cons.prems have rest: "\<forall>(f, doc) \<in> set docs. \<exists>d. date_accessed_of doc = Inr d"
    by simp
  show ?case
    using d Cons.IH [OF rest] p
    by (auto simp: later_record_def date_accessed_of_def)
qed

lemma scan_index_malformed:
  "(f, doc) \<in> set docs \<Longrightarrow> date_accessed_of doc = Inl e \<Longrightarrow>
   fst (scan_index url m docs up tr) = Inl (PyExc ''ValueError'') \<or>
   fst (scan_index url m docs up tr) = Inl (PyExc ''TypeError'')"
proof (induction docs arbitrary: up tr)
  case Nil
  then show ?case by simp
next
  case (Cons p docs)
  obtain f' doc' where p: "p = (f', doc')" by (cases p)
  show ?case
  proof (cases "date_accessed_of doc'")
    case (Inl e1)
    then show ?thesis
      using p strptime_errors [of "dict_get doc' ''date_accessed''" e1]
      by (auto simp: date_accessed_of_def)
  next
    case (Inr d)
    with Cons.prems p have "(f, doc) \<in> set docs" by auto
    from Cons.IH [OF this Cons.prems(2)] show ?thesis
      using p Inr by (auto simp: date_accessed_of_def)
  qed
qed

text \<open>
  C1, as the code has it. When the \<open>date_accessed\<close> of every document of the partition
  parses, \<open>is_dataset_already_up_to_date\<close> returns, and it returns true exactly when some
  document has the candidate's address and a date strictly after the candidate's
  modification date. So it returns false on an empty partition, when no document has the
  candidate's address, and when every document with that address was accessed on the
  modification date itself.
\<close>

theorem up_to_date_iff_later_record:
  assumes "\<forall>(f, doc) \<in> set (iter_docs env tr NAMESPACE). \<exists>d. date_accessed_of doc = Inr d"
  shows "fst (is_dataset_already_up_to_date env url modified tr) =
           Inr (\<exists>(f, doc) \<in> set (iter_docs env tr NAMESPACE). later_record url modified doc)
         \<and> (iter_docs env tr NAMESPACE = [] \<longrightarrow>
              fst (is_dataset_already_up_to_date env url modified tr) = Inr False)
         \<and> ((\<forall>(f, doc) \<in> set (iter_docs env tr NAMESPACE).
               dict_get doc ''source_data_url'' \<noteq> url) \<longrightarrow>
              fst (is_dataset_already_up_to_date env url modified tr) = Inr False)
         \<and> ((\<forall>(f, doc) \<in> set (iter_docs env tr NAMESPACE).
               dict_get doc ''source_data_url'' = url \<longrightarrow> date_accessed_of doc = Inr modified) \<longrightarrow>
              fst (is_dataset_already_up_to_date env url modified tr) = Inr False)"
proof -
  have main: "fst (is_dataset_already_up_to_date env url modified tr) =
      Inr (\<exists>(f, doc) \<in> set (iter_docs env tr NAMESPACE). later_record url modified doc)"
    using scan_index_all_parse [OF assms] by (simp add: is_dataset_already_up_to_date_def)
  have empty: "iter_docs env tr NAMESPACE = [] \<longrightarrow>
      fst (is_dataset_already_up_to_date env url modified tr) = Inr False"
    using main by simp
  have no_match: "(\<forall>(f, doc) \<in> set (iter_docs env tr NAMESPACE).
        dict_get doc ''source_data_url'' \<noteq> url) \<longrightarrow>
      fst (is_dataset_already_up_to_date env url modified tr) = Inr False"
    unfolding main by (auto simp: later_record_def)
  have tie: "(\<forall>(f, doc) \<in> set (iter_docs env tr NAMESPACE).
        dict_get doc ''source_data_url'' = url \<longrightarrow> date_accessed_of doc = Inr modified) \<longrightarrow>
      fst (is_dataset_already_up_to_date env url modified tr) = Inr False"
    unfolding main by (auto simp: later_record_def)
  from main empty no_match tie show ?thesis by blast
qed

theorem up_to_date_iff_later_record_witness:
  "fst (is_dataset_already_up_to_date
          (with_index sample_env [(''a.json'', doc_af_later), (''b.json'', doc_same_day),
             (''c.json'', doc_later)]) ae_url (Date 2021 6 3) []) = Inr True
   \<and> fst (is_dataset_already_up_to_date
          (with_index sample_env [(''a.json'', doc_af_later), (''b.json'', doc_same_day)])
          ae_url (Date 2021 6 3) []) = Inr False"
  using
    up_to_date_iff_later_record [of "with_index sample_env [(''a.json'', doc_af_later),
      (''b.json'', doc_same_day), (''c.json'', doc_later)]" "[]" ae_url "Date 2021 6 3"]
    up_to_date_iff_later_record [of "with_index sample_env [(''a.json'', doc_af_later),
      (''b.json'', doc_same_day)]" "[]" ae_url "Date 2021 6 3"]
  by (simp add: with_index_def sample_env_def doc_defs strptime_samples)

text \<open>
  C1 as stated fails on a partition with a malformed document: the document
  \<open>doc_later\<close> has the candidate's address and a later date, and the check raises
  \<open>ValueError\<close> instead of returning true.
\<close>

theorem up_to_date_counterexample:
  "later_record ae_url (Date 2021 6 3) doc_later
   \<and> iter_docs (with_index sample_env [(''a.json'', doc_later), (''b.json'', doc_malformed)])
       [] NAMESPACE = [(''a.json'', doc_later), (''b.json'', doc_malformed)]
   \<and> fst (is_dataset_already_up_to_date
        (with_index sample_env [(''a.json'', doc_later), (''b.json'', doc_malformed)])
        ae_url (Date 2021 6 3) []) = Inl (PyExc ''ValueError'')"
  by (simp add: with_index_def sample_env_def doc_defs strptime_samples
      is_dataset_already_up_to_date_def)

text \<open>
  C2, as the code has it. A document whose \<open>date_accessed\<close> does not parse aborts the scan:
  whatever the other documents of the partition hold, \<open>is_dataset_already_up_to_date\<close>
  raises the exception of \<open>strptime\<close> (\<open>ValueError\<close> for a string in another format,
  \<open>TypeError\<close> for a missing field or one that is not a string). It returns nothing, so
  no result and no count of skipped documents reaches the caller.
\<close>

theorem malformed_record_aborts_scan:
  assumes "(f, doc) \<in> set (iter_docs env tr NAMESPACE)"
    and "date_accessed_of doc = Inl e"
  shows "fst (is_dataset_already_up_to_date env url modified tr) = Inl (PyExc ''ValueError'')
         \<or> fst (is_dataset_already_up_to_date env url modified tr) = Inl (PyExc ''TypeError'')"
  using scan_index_malformed [OF assms] by (simp add: is_dataset_already_up_to_date_def)

theorem malformed_record_aborts_scan_witness:
  "fst (is_dataset_already_up_to_date
          (with_index sample_env [(''a.json'', [(''source_data_url'', ae_url)])])
          ae_url (Date 2021 6 3) []) = Inl (PyExc ''TypeError'')"
  using malformed_record_aborts_scan [of "''a.json''" "[(''source_data_url'', ae_url)]"
      "with_index sample_env [(''a.json'', [(''source_data_url'', ae_url)])]" "[]"
      "PyExc ''TypeError''" ae_url "Date 2021 6 3"]
  by (simp add: with_index_def sample_env_def doc_defs is_dataset_already_up_to_date_def)

text \<open>
  C2 as stated fails: with a malformed document before a well-formed one that would make
  the candidate up to date, the scan stops at the malformed document with \<open>ValueError\<close>,
  having read the index and nothing else.
\<close>

theorem malformed_record_counterexample:
  "is_dataset_already_up_to_date
     (with_index sample_env [(''a.json'', doc_malformed), (''b.json'', doc_later)])
     ae_url (Date 2021 6 3) [] = (Inl (PyExc ''ValueError''), [IterDocs ''faostat''])"
  by (simp add: with_index_def sample_env_def doc_defs strptime_samples
      is_dataset_already_up_to_date_def NAMESPACE_def)

lemma scan_index_snd:
  "\<exists>logs. snd (scan_index url m docs up tr) = tr @ logs \<and> list_all is_log logs"
proof (induction docs arbitrary: up tr)
  case Nil
  then show ?case by simp
next
  case (Cons p docs)
  obtain f doc where p: "p = (f, doc)" by (cases p)
  show ?case
  proof (cases "strptime_ymd (dict_get doc ''date_accessed'')")
    case (Inl e)
    then show ?thesis using p by simp
  next
    case (Inr d)
    let ?l = "Log ''INFO'' (''Dataset is already up-to-date (index file: '' @ f @ '').'')"
    from Cons.IH [of True "tr @ [?l]"] obtain logs1 where
      l1: "snd (scan_index url m docs True (tr @ [?l])) = (tr @ [?l]) @ logs1" "list_all is_log logs1"
      by blast
    from Cons.IH [of up tr] obtain logs2 where
      l2: "snd (scan_index url m docs up tr) = tr @ logs2" "list_all is_log logs2"
      by blast
    show ?thesis
    proof (cases "dict_get doc ''source_data_url'' = url \<and> date_gt d m")
      case True
      have "snd (scan_index url m (p # docs) up tr) = tr @ (?l # logs1)"
        using p Inr True l1 by simp
      moreover have "list_all is_log (?l # logs1)" using l1 by simp
      ultimately show ?thesis by blast
    next
      case False
      have "snd (scan_index url m (p # docs) up tr) = tr @ logs2"
        using p Inr False l2 by auto
      then show ?thesis using l2 by blast
    qed
  qed
qed

lemma scan_index_True: "fst (scan_index url m docs True tr) \<noteq> Inr False"
proof (induction docs arbitrary: tr)
  case Nil
  then show ?case by simp
next
  case (Cons p docs)
  obtain f doc where p: "p = (f, doc)" by (cases p)
  show ?case using p Cons.IH
    by (cases "strptime_ymd (dict_get doc ''date_accessed'')") auto
qed

lemma scan_index_False:
  "scan_index url m docs up tr = (Inr False, tr') \<Longrightarrow> tr' = tr"
proof (induction docs arbitrary: up tr)
  case Nil
  then show ?case by simp
next
  case (Cons p docs)
  obtain f doc where p: "p = (f, doc)" by (cases p)
  show ?case
  proof (cases "strptime_ymd (dict_get doc ''date_accessed'')")
    case (Inl e)
    then show ?thesis using p Cons.prems by simp
  next
    case (Inr d)
    show ?thesis
    proof (cases "dict_get doc ''source_data_url'' = url \<and> date_gt d m")
      case True
      let ?l = "Log ''INFO'' (''Dataset is already up-to-date (index file: '' @ f @ '').'')"
      from Cons.prems p Inr True
      have "scan_index url m docs True (tr @ [?l]) = (Inr False, tr')" by simp
      then have "fst (scan_index url m docs True (tr @ [?l])) = Inr False" by simp
      with scan_index_True show ?thesis by blast
    next
      case False
      from Cons.prems p Inr False
      have "scan_index url m docs up tr = (Inr False, tr')" by auto
      then show ?thesis by (rule Cons.IH)
    qed
  qed
qed

lemma oracle_shape:
  assumes "is_dataset_already_up_to_date env url m tr = (r, tr')"
  shows "\<exists>logs. tr' = tr @ IterDocs NAMESPACE # logs \<and> list_all is_log logs
           \<and> (r = Inr False \<longrightarrow> logs = [])"
proof -
  from scan_index_snd [of url m "iter_docs env tr NAMESPACE" False "tr @ [IterDocs NAMESPACE]"]
  obtain logs where l: "snd (scan_index url m (iter_docs env tr NAMESPACE) False
      (tr @ [IterDocs NAMESPACE])) = (tr @ [IterDocs NAMESPACE]) @ logs" "list_all is_log logs"
    by blast
  from assms have eq: "scan_index url m (iter_docs env tr NAMESPACE) False
      (tr @ [IterDocs NAMESPACE]) = (r, tr')"
    by (simp add: is_dataset_already_up_to_date_def)
  with l have tr': "tr' = tr @ IterDocs NAMESPACE # logs" by simp
  have "r = Inr False \<longrightarrow> logs = []"
  proof
    assume "r = Inr False"
    with eq have "tr' = tr @ [IterDocs NAMESPACE]" using scan_index_False by blast
    with tr' show "logs = []" by simp
  qed
  with tr' l show ?thesis by blast
qed

lemma to_walden_shape:
  assumes "to_walden env self tr = (r, tr')" and "source_data_url self = Inr url"
  shows "(tr' = tr @ [TempFile] \<and> (\<exists>e. r = Inl e))
       \<or> (\<exists>f. tr' = tr @ [TempFile, Download url f] \<and> (\<exists>e. r = Inl e))
       \<or> (\<exists>f md. tr' = tr @ [TempFile, Download url f, AddToCatalog (MetadataDict md) f]
             \<and> metadata env self = Inr md
             \<and> r = add_to_catalog env (tr @ [TempFile, Download url f]) (MetadataDict md) f)"
proof (cases "named_temporary_file env tr")
  case (Inl e)
  with assms have "r = Inl e" "tr' = tr @ [TempFile]" by (auto simp: to_walden_def)
  then show ?thesis by blast
next
  case f: (Inr f)
  show ?thesis
  proof (cases "files_download env (tr @ [TempFile]) url f")
    case (Inl e)
    with assms f have "r = Inl e" "tr' = tr @ [TempFile, Download url f]"
      by (auto simp: to_walden_def)
    then show ?thesis by blast
  next
    case dl: (Inr u)
    show ?thesis
    proof (cases "metadata env self")
      case (Inl e)
      with assms f dl have "r = Inl e" "tr' = tr @ [TempFile, Download url f]"
        by (auto simp: to_walden_def)
      then show ?thesis by blast
    next
      case (Inr md)
      with assms f dl
      have "r = add_to_catalog env (tr @ [TempFile, Download url f]) (MetadataDict md) f"
        and "tr' = tr @ [TempFile, Download url f, AddToCatalog (MetadataDict md) f]"
        by (auto simp: to_walden_def)
      with Inr show ?thesis by blast
    qed
  qed
qed

lemma loop_body_shape:
  assumes "loop_body env d upd tr = (r, tr')"
  shows "(tr' = tr \<and> (\<exists>e. r = Inl e))
       \<or> (tr' = tr \<and> \<not> allow_listed d \<and> r = Inr upd)
       \<or> (allow_listed d \<and> tr' = tr @ [HttpHead (file_location d)] \<and> (\<exists>e. r = Inl e))
       \<or> (allow_listed d \<and> (\<exists>logs. tr' = tr @ HttpHead (file_location d) # IterDocs NAMESPACE # logs
              \<and> list_all is_log logs) \<and> ((\<exists>e. r = Inl e) \<or> r = Inr upd))
       \<or> (allow_listed d \<and> found_stale env d tr (file_location d) \<and> (\<exists>m self w.
              source_data_url self = Inr (file_location d)
            \<and> is_dataset_already_up_to_date env (file_location d) m (tr @ [HttpHead (file_location d)])
                = (Inr False, tr @ [HttpHead (file_location d), IterDocs NAMESPACE])
            \<and> to_walden env self (tr @ [HttpHead (file_location d), IterDocs NAMESPACE]) = (w, tr')
            \<and> r = (case w of Inl e \<Rightarrow> Inl e | Inr u \<Rightarrow> Inr True)))"
proof (cases "subscript d ''DatasetCode''")
  case (Inl e)
  with assms show ?thesis by (auto simp: loop_body_def)
next
  case code: (Inr code)
  show ?thesis
  proof (cases "py_lower code")
    case (Inl e)
    with assms code show ?thesis by (auto simp: loop_body_def)
  next
    case low: (Inr l)
    show ?thesis
    proof (cases "l \<in> set INCLUDED_DATASETS_CODES")
      case False
      with assms code low show ?thesis by (auto simp: loop_body_def allow_listed_def)
    next
      case True
      then have al: "allow_listed d" using code low by (simp add: allow_listed_def)
      from assms code low True have body:
        "bindS (FAODataset_init env d tr) (\<lambda>faostat_dataset tr1.
          bindP (source_data_url faostat_dataset) tr1 (\<lambda>url.
          bindP (modification_date env faostat_dataset tr1) tr1 (\<lambda>modified.
          bindS (is_dataset_already_up_to_date env url modified tr1) (\<lambda>up tr2.
            if up then (Inr upd, tr2)
            else bindS (to_walden env faostat_dataset tr2) (\<lambda>_ tr3. (Inr True, tr3)))))) = (r, tr')"
        by (simp add: loop_body_def)
      show ?thesis
      proof (cases "subscript d ''FileLocation''")
        case (Inl e)
        with body show ?thesis by (auto simp: FAODataset_init_def source_data_url_def)
      next
        case loc: (Inr url)
        then have url: "file_location d = url"
          by (auto simp: file_location_def dict_get_def subscript_def split: option.splits)
        show ?thesis
        proof (cases "requests_head env tr url")
          case (Inl e)
          with body loc url al show ?thesis
            by (auto simp: FAODataset_init_def source_data_url_def)
        next
          case head: (Inr headers)
          let ?self = "\<lparr>dataset_metadata = d, dataset_server_metadata = headers\<rparr>"
          let ?tr1 = "tr @ [HttpHead url]"
          have self_url: "source_data_url ?self = Inr url"
            using loc by (simp add: source_data_url_def)
          from body loc head have body2:
            "bindP (modification_date env ?self ?tr1) ?tr1 (\<lambda>modified.
               bindS (is_dataset_already_up_to_date env url modified ?tr1) (\<lambda>up tr2.
                 if up then (Inr upd, tr2)
                 else bindS (to_walden env ?self tr2) (\<lambda>_ tr3. (Inr True, tr3)))) = (r, tr')"
            by (simp add: FAODataset_init_def source_data_url_def)
          show ?thesis
          proof (cases "modification_date env ?self ?tr1")
            case (Inl e)
            with body2 url al show ?thesis by auto
          next
            case md: (Inr m)
            obtain ro tr2 where o: "is_dataset_already_up_to_date env url m ?tr1 = (ro, tr2)"
              by (cases "is_dataset_already_up_to_date env url m ?tr1")
            from oracle_shape [OF o] obtain logs where
              logs: "tr2 = ?tr1 @ IterDocs NAMESPACE # logs" "list_all is_log logs"
                "ro = Inr False \<longrightarrow> logs = []"
              by blast
            from body2 md o have body3:
              "bindS (ro, tr2) (\<lambda>up tr2.
                 if up then (Inr upd, tr2)
                 else bindS (to_walden env ?self tr2) (\<lambda>_ tr3. (Inr True, tr3))) = (r, tr')"
              by simp
            show ?thesis
            proof (cases ro)
              case (Inl e)
              with body3 logs url al show ?thesis by auto
            next
              case (Inr up)
              show ?thesis
              proof (cases up)
                case True
                with Inr body3 logs url al show ?thesis by auto
              next
                case False
                with Inr logs have tr2: "tr2 = tr @ [HttpHead url, IterDocs NAMESPACE]" by simp
                obtain w tr3 where w: "to_walden env ?self tr2 = (w, tr3)"
                  by (cases "to_walden env ?self tr2")
                from body3 Inr False w have "r = (case w of Inl e \<Rightarrow> Inl e | Inr u \<Rightarrow> Inr True)"
                  and "tr' = tr3"
                  by (auto simp: bindS_def split: sum.splits)
                with url self_url o Inr False tr2 w
                have "\<exists>m self w.
                    source_data_url self = Inr (file_location d)
                  \<and> is_dataset_already_up_to_date env (file_location d) m
                      (tr @ [HttpHead (file_location d)])
                      = (Inr False, tr @ [HttpHead (file_location d), IterDocs NAMESPACE])
                  \<and> to_walden env self (tr @ [HttpHead (file_location d), IterDocs NAMESPACE])
                      = (w, tr')
                  \<and> r = (case w of Inl e \<Rightarrow> Inl e | Inr u \<Rightarrow> Inr True)"
                  by auto
                moreover from loc head md o Inr False tr2
                have "found_stale env d tr (file_location d)"
                  unfolding found_stale_def url
                  by (intro exI [of _ headers] exI [of _ m] conjI) simp_all
                ultimately show ?thesis using al by blast
              qed
            qed
          qed
        qed
      qed
    qed
  qed
qed

lemma probes_append [simp]: "probes (a @ b) = probes a @ probes b"
  by (induction a rule: probes.induct) simp_all

lemma probes_logs [simp]: "list_all is_log logs \<Longrightarrow> probes logs = []"
  by (induction logs rule: probes.induct) simp_all

lemma is_log_others:
  assumes "is_log ev"
  shows "\<not> is_consult ev" "\<not> is_primary_commit ev" "\<not> is_aux_commit ev"
    "\<not> is_api_call ev" "\<not> is_download ev" "versioned env ev" "gate_ok env h ev"
  using assms by (cases ev; simp add: versioned_def)+

lemma filter_logs [simp]:
  assumes "list_all is_log logs"
  shows "filter is_consult logs = []" "filter is_primary_commit logs = []"
    "filter is_aux_commit logs = []" "filter is_api_call logs = []"
  using assms by (auto simp: filter_empty_conv list_all_iff dest: is_log_others)

lemma versioned_logs: "list_all is_log logs \<Longrightarrow> list_all (versioned env) logs"
  by (auto simp: list_all_iff intro: is_log_others)

lemma gated_from_append:
  "gated_from env h (a @ b) = (gated_from env h a \<and> gated_from env (h @ a) b)"
  by (induction a arbitrary: h) auto

lemma gated_from_logs: "list_all is_log logs \<Longrightarrow> gated_from env h logs"
  by (induction logs arbitrary: h) (auto intro: is_log_others)

lemma metadata_version:
  assumes "metadata env self = Inr md"
  shows "carries_version (VERSION env) md"
  using assms
  by (auto simp: metadata_def bindE_def carries_version_def split: sum.splits)

lemma loop_body_ext:
  assumes "loop_body env d upd tr = (r, tr')"
  defines "u \<equiv> file_location d"
  shows "(tr' = tr \<and> (\<exists>e. r = Inl e))
       \<or> (tr' = tr \<and> \<not> allow_listed d \<and> r = Inr upd)
       \<or> (allow_listed d \<and> tr' = tr @ [HttpHead u] \<and> (\<exists>e. r = Inl e))
       \<or> (allow_listed d \<and> (\<exists>logs. tr' = tr @ HttpHead u # IterDocs NAMESPACE # logs
              \<and> list_all is_log logs) \<and> ((\<exists>e. r = Inl e) \<or> r = Inr upd))
       \<or> (allow_listed d \<and> found_stale env d tr u
              \<and> tr' = tr @ [HttpHead u, IterDocs NAMESPACE, TempFile] \<and> (\<exists>e. r = Inl e))
       \<or> (allow_listed d \<and> found_stale env d tr u
              \<and> (\<exists>f. tr' = tr @ [HttpHead u, IterDocs NAMESPACE, TempFile, Download u f])
              \<and> (\<exists>e. r = Inl e))
       \<or> (allow_listed d \<and> found_stale env d tr u
              \<and> (\<exists>f md. tr' = tr @ [HttpHead u, IterDocs NAMESPACE, TempFile, Download u f,
                                  AddToCatalog (MetadataDict md) f]
                    \<and> carries_version (VERSION env) md)
              \<and> ((\<exists>e. r = Inl e) \<or> r = Inr True))"
proof -
  from loop_body_shape [OF assms(1)] consider
      (a) "tr' = tr" "\<exists>e. r = Inl e"
    | (b) "tr' = tr" "\<not> allow_listed d" "r = Inr upd"
    | (c) "allow_listed d" "tr' = tr @ [HttpHead u]" "\<exists>e. r = Inl e"
    | (d) "allow_listed d" "\<exists>logs. tr' = tr @ HttpHead u # IterDocs NAMESPACE # logs
              \<and> list_all is_log logs" "(\<exists>e. r = Inl e) \<or> r = Inr upd"
    | (e) m self w where "allow_listed d" "source_data_url self = Inr u"
        "is_dataset_already_up_to_date env u m (tr @ [HttpHead u])
           = (Inr False, tr @ [HttpHead u, IterDocs NAMESPACE])"
        "to_walden env self (tr @ [HttpHead u, IterDocs NAMESPACE]) = (w, tr')"
        "r = (case w of Inl e \<Rightarrow> Inl e | Inr u \<Rightarrow> Inr True)"
        "found_stale env d tr u"
    unfolding u_def by blast
  then show ?thesis
  proof cases
    case a then show ?thesis by blast
  next
    case b then show ?thesis by blast
  next
    case c then show ?thesis by blast
  next
    case d then show ?thesis by blast
  next
    case e
    note stale = e(6)
    from to_walden_shape [OF e(4) e(2)] consider
        (w1) "tr' = (tr @ [HttpHead u, IterDocs NAMESPACE]) @ [TempFile]" "\<exists>e. w = Inl e"
      | (w2) f where "tr' = (tr @ [HttpHead u, IterDocs NAMESPACE]) @ [TempFile, Download u f]"
          "\<exists>e. w = Inl e"
      | (w3) f md where "tr' = (tr @ [HttpHead u, IterDocs NAMESPACE])
            @ [TempFile, Download u f, AddToCatalog (MetadataDict md) f]"
          "metadata env self = Inr md"
      by blast
    then show ?thesis
    proof cases
      case w1
      with e(1,5) stale have "allow_listed d \<and> found_stale env d tr u
              \<and> tr' = tr @ [HttpHead u, IterDocs NAMESPACE, TempFile] \<and> (\<exists>e. r = Inl e)"
        by auto
      then show ?thesis by blast
    next
      case w2
      with e(1,5) stale have "allow_listed d \<and> found_stale env d tr u
              \<and> (\<exists>f. tr' = tr @ [HttpHead u, IterDocs NAMESPACE, TempFile, Download u f])
              \<and> (\<exists>e. r = Inl e)"
        by auto
      then show ?thesis by blast
    next
      case w3
      from w3(2) have "carries_version (VERSION env) md" by (rule metadata_version)
      moreover from e(5) have "(\<exists>e. r = Inl e) \<or> r = Inr True" by (cases w) auto
      ultimately have "allow_listed d \<and> found_stale env d tr u
              \<and> (\<exists>f md. tr' = tr @ [HttpHead u, IterDocs NAMESPACE, TempFile, Download u f,
                                  AddToCatalog (MetadataDict md) f]
                    \<and> carries_version (VERSION env) md)
              \<and> ((\<exists>e. r = Inl e) \<or> r = Inr True)"
        using e(1) stale w3(1) by auto
      then show ?thesis by blast
    qed
  qed
qed

lemma loop_body_probes:
  assumes "loop_body env d upd tr = (r, tr')"
  shows "probes tr' = probes tr \<or> (allow_listed d \<and> probes tr' = probes tr @ [file_location d])"
    and "r = Inr u \<Longrightarrow>
           probes tr' = probes tr @ (if allow_listed d then [file_location d] else [])"
  using loop_body_ext [OF assms] by (elim disjE exE conjE; simp)+

lemma loop_body_consults:
  assumes "loop_body env d upd tr = (Inr u, tr')"
  shows "length (filter is_consult tr')
           = length (filter is_consult tr) + (if allow_listed d then 1 else 0)"
  using loop_body_ext [OF assms] by (elim disjE exE conjE; simp)

lemma loop_body_no_aux:
  assumes "loop_body env d upd tr = (r, tr')"
  shows "filter is_api_call tr' = filter is_api_call tr"
    and "filter is_aux_commit tr' = filter is_aux_commit tr"
  using loop_body_ext [OF assms] by (elim disjE exE conjE; simp)+

lemma loop_body_commits:
  assumes "loop_body env d upd tr = (r, tr')"
  shows "length (filter is_primary_commit tr) \<le> length (filter is_primary_commit tr')"
    and "r = Inr u \<Longrightarrow>
           u = (upd \<or> length (filter is_primary_commit tr) < length (filter is_primary_commit tr'))"
  using loop_body_ext [OF assms] by (elim disjE exE conjE; simp)+

lemma loop_body_versioned:
  assumes "loop_body env d upd tr = (r, tr')" and "list_all (versioned env) tr"
  shows "list_all (versioned env) tr'"
  using loop_body_ext [OF assms(1)] assms(2)
  by (elim disjE exE conjE; simp add: versioned_logs versioned_def)

lemma stale_gate:
  assumes "found_stale env d h url" and "allow_listed d"
    and "requests_get_catalog env [] = Inr catalog" and "d \<in> set catalog"
  shows "oracle_said_stale env (h @ [HttpHead url, IterDocs NAMESPACE, TempFile]) url"
  unfolding oracle_said_stale_def using assms
  by (intro exI [of _ h] exI [of _ catalog] exI [of _ d]) simp

lemma loop_body_gated:
  assumes "loop_body env d upd tr = (r, tr')" and "gated_from env [] tr"
    and "requests_get_catalog env [] = Inr catalog" and "d \<in> set catalog"
  shows "gated_from env [] tr'"
  using loop_body_ext [OF assms(1)] assms(2)
  by (elim disjE exE conjE;
      simp add: gated_from_append gated_from_logs stale_gate [of env d _ _ catalog, OF _ _ assms(3,4)])

subsection \<open>The loop\<close>

lemma main_loop_append:
  "main_loop env (xs @ ys) upd tr = bindS (main_loop env xs upd tr) (main_loop env ys)"
proof (induction xs arbitrary: upd tr)
  case Nil
  then show ?case by simp
next
  case (Cons d xs)
  show ?case
  proof (cases "loop_body env d upd tr")
    case (Pair r tr1)
    then show ?thesis using Cons.IH by (cases r) simp_all
  qed
qed

lemma main_loop_Cons:
  assumes "main_loop env (d # ds) upd tr = (r, tr')"
  shows "(\<exists>e. loop_body env d upd tr = (Inl e, tr') \<and> r = Inl e)
       \<or> (\<exists>u tr1. loop_body env d upd tr = (Inr u, tr1) \<and> main_loop env ds u tr1 = (r, tr'))"
proof (cases "loop_body env d upd tr")
  case (Pair r1 tr1)
  then show ?thesis using assms by (cases r1) auto
qed

lemma main_loop_no_aux:
  assumes "main_loop env ds upd tr = (r, tr')"
  shows "filter is_api_call tr' = filter is_api_call tr
       \<and> filter is_aux_commit tr' = filter is_aux_commit tr"
  using assms
proof (induction ds arbitrary: upd tr)
  case Nil
  then show ?case by simp
next
  case (Cons d ds)
  from main_loop_Cons [OF Cons.prems] show ?case
    using loop_body_no_aux Cons.IH by (elim disjE exE conjE) (simp, metis)
qed

lemma main_loop_versioned:
  assumes "main_loop env ds upd tr = (r, tr')" and "list_all (versioned env) tr"
  shows "list_all (versioned env) tr'"
  using assms
proof (induction ds arbitrary: upd tr)
  case Nil
  then show ?case by simp
next
  case (Cons d ds)
  from main_loop_Cons [OF Cons.prems(1)] show ?case
    using loop_body_versioned Cons.IH Cons.prems(2) by (elim disjE exE conjE) blast+
qed

lemma main_loop_gated:
  assumes "main_loop env ds upd tr = (r, tr')" and "gated_from env [] tr"
    and "requests_get_catalog env [] = Inr catalog" and "set ds \<subseteq> set catalog"
  shows "gated_from env [] tr'"
  using assms(1,2,4)
proof (induction ds arbitrary: upd tr)
  case Nil
  then show ?case by simp
next
  case (Cons d ds)
  from Cons.prems(3) have d: "d \<in> set catalog" and ds: "set ds \<subseteq> set catalog" by simp_all
  from main_loop_Cons [OF Cons.prems(1)] show ?case
  proof (elim disjE exE conjE)
    fix e assume "loop_body env d upd tr = (Inl e, tr')"
    from loop_body_gated [OF this Cons.prems(2) assms(3) d] show ?thesis .
  next
    fix u tr1
    assume b: "loop_body env d upd tr = (Inr u, tr1)" and l: "main_loop env ds u tr1 = (r, tr')"
    from loop_body_gated [OF b Cons.prems(2) assms(3) d] have "gated_from env [] tr1" .
    from Cons.IH [OF l this ds] show ?thesis .
  qed
qed

lemma main_loop_commits_mono:
  assumes "main_loop env ds upd tr = (r, tr')"
  shows "length (filter is_primary_commit tr) \<le> length (filter is_primary_commit tr')"
  using assms
proof (induction ds arbitrary: upd tr)
  case Nil
  then show ?case by simp
next
  case (Cons d ds)
  from main_loop_Cons [OF Cons.prems] show ?case
  proof (elim disjE exE conjE)
    fix e assume "loop_body env d upd tr = (Inl e, tr')"
    then show ?thesis by (rule loop_body_commits(1))
  next
    fix u tr1
    assume 1: "loop_body env d upd tr = (Inr u, tr1)" and 2: "main_loop env ds u tr1 = (r, tr')"
    from loop_body_commits(1) [OF 1] Cons.IH [OF 2] show ?thesis by linarith
  qed
qed

lemma main_loop_flag:
  assumes "main_loop env ds upd tr = (Inr u, tr')"
  shows "u = (upd \<or> length (filter is_primary_commit tr) < length (filter is_primary_commit tr'))"
  using assms
proof (induction ds arbitrary: upd tr)
  case Nil
  then show ?case by auto
next
  case (Cons d ds)
  from main_loop_Cons [OF Cons.prems] obtain u1 tr1 where
    1: "loop_body env d upd tr = (Inr u1, tr1)" and 2: "main_loop env ds u1 tr1 = (Inr u, tr')"
    by auto
  from loop_body_commits [OF 1] have
    a: "length (filter is_primary_commit tr) \<le> length (filter is_primary_commit tr1)"
    and b: "u1 = (upd \<or> length (filter is_primary_commit tr) < length (filter is_primary_commit tr1))"
    by simp_all
  from main_loop_commits_mono [OF 2] have
    c: "length (filter is_primary_commit tr1) \<le> length (filter is_primary_commit tr')" .
  from Cons.IH [OF 2] have
    d: "u = (u1 \<or> length (filter is_primary_commit tr1) < length (filter is_primary_commit tr'))" .
  from a b c d show ?case by auto
qed

lemma main_loop_probes_done:
  assumes "main_loop env ds upd tr = (Inr u, tr')"
  shows "probes tr' = probes tr @ map file_location (filter allow_listed ds)
       \<and> length (filter is_consult tr')
           = length (filter is_consult tr) + length (filter allow_listed ds)"
  using assms
proof (induction ds arbitrary: upd tr)
  case Nil
  then show ?case by simp
next
  case (Cons d ds)
  from main_loop_Cons [OF Cons.prems] obtain u1 tr1 where
    1: "loop_body env d upd tr = (Inr u1, tr1)" and 2: "main_loop env ds u1 tr1 = (Inr u, tr')"
    by auto
  from loop_body_probes(2) [OF 1] loop_body_consults [OF 1] Cons.IH [OF 2]
  show ?case by simp
qed

lemma main_loop_probes_prefix:
  assumes "main_loop env ds upd tr = (r, tr')"
  shows "\<exists>n. probes tr' = probes tr @ take n (map file_location (filter allow_listed ds))"
  using assms
proof (induction ds arbitrary: upd tr)
  case Nil
  then show ?case by simp
next
  case (Cons d ds)
  let ?all = "map file_location (filter allow_listed (d # ds))"
  from main_loop_Cons [OF Cons.prems] show ?case
  proof (elim disjE exE conjE)
    fix e assume 1: "loop_body env d upd tr = (Inl e, tr')"
    from loop_body_probes(1) [OF 1] show ?thesis
    proof
      assume "probes tr' = probes tr"
      then have "probes tr' = probes tr @ take 0 ?all" by simp
      then show ?thesis by blast
    next
      assume "allow_listed d \<and> probes tr' = probes tr @ [file_location d]"
      then have "probes tr' = probes tr @ take 1 ?all" by simp
      then show ?thesis by blast
    qed
  next
    fix u1 tr1
    assume 1: "loop_body env d upd tr = (Inr u1, tr1)" and 2: "main_loop env ds u1 tr1 = (r, tr')"
    from Cons.IH [OF 2] obtain n where
      n: "probes tr' = probes tr1 @ take n (map file_location (filter allow_listed ds))" by blast
    show ?thesis
    proof (cases "allow_listed d")
      case True
      with loop_body_probes(2) [OF 1] n
      have "probes tr' = probes tr @ take (Suc n) ?all" by simp
      then show ?thesis by blast
    next
      case False
      with loop_body_probes(2) [OF 1] n
      have "probes tr' = probes tr @ take n ?all" by simp
      then show ?thesis by blast
    qed
  qed
qed

lemma prefix_api_url [simp]: "prefix API_PREFIX (API_BASE_URL domain category)"
  by (simp add: API_BASE_URL_def)

lemma is_api_call_others:
  assumes "is_api_call ev"
  shows "is_aux_kind ev" "\<not> is_aux_commit ev"
  using assms by (cases ev; simp)+

lemma is_aux_kind_others:
  assumes "is_aux_kind ev"
  shows "\<not> is_primary_commit ev" "\<not> is_download ev" "gate_ok env h ev" "\<not> is_consult ev"
  using assms by (cases ev rule: is_aux_kind.cases; simp)+

lemma gated_from_aux: "list_all is_aux_kind ext \<Longrightarrow> gated_from env h ext"
  by (induction ext arbitrary: h) (auto intro: is_aux_kind_others)

lemma fetch_categories_trace:
  assumes "fetch_categories env domain cs dm tr = (r, tr')"
  shows "\<exists>ext. tr' = tr @ ext \<and> list_all is_api_call ext
           \<and> ((\<exists>x. r = Inr x) \<longrightarrow> ext = map (\<lambda>c. HttpGet (API_BASE_URL domain c)) cs)"
  using assms
proof (induction cs arbitrary: dm tr)
  case Nil
  then show ?case by auto
next
  case (Cons c cs)
  let ?g = "HttpGet (API_BASE_URL domain c)"
  show ?case
  proof (cases "requests_get_api env tr (API_BASE_URL domain c)")
    case (Inl e)
    with Cons.prems have "tr' = tr @ [?g]" "r = Inl e" by auto
    then show ?thesis by auto
  next
    case resp: (Inr resp)
    have step: "\<exists>ext. tr' = (tr @ [?g]) @ ext \<and> list_all is_api_call ext
           \<and> ((\<exists>x. r = Inr x) \<longrightarrow> ext = map (\<lambda>c. HttpGet (API_BASE_URL domain c)) cs)"
      if "fetch_categories env domain cs dm' (tr @ [?g]) = (r, tr')" for dm'
      using that by (rule Cons.IH)
    show ?thesis
    proof (cases "ok resp")
      case False
      with Cons.prems resp
      have "fetch_categories env domain cs dm (tr @ [?g]) = (r, tr')" by simp
      from step [OF this] show ?thesis by auto
    next
      case True
      show ?thesis
      proof (cases "body resp")
        case (Inl e)
        with Cons.prems resp True have "tr' = tr @ [?g]" "r = Inl e" by auto
        then show ?thesis by auto
      next
        case (Inr doc)
        with Cons.prems resp True
        have "fetch_categories env domain cs (dict_set dm c doc) (tr @ [?g]) = (r, tr')" by simp
        from step [OF this] show ?thesis by auto
      qed
    qed
  qed
qed

lemma fetch_domains_trace:
  assumes "fetch_domains env ds mc tr = (r, tr')"
  shows "\<exists>ext. tr' = tr @ ext \<and> list_all is_aux_kind ext \<and> filter is_aux_commit ext = []
           \<and> ((\<exists>x. r = Inr x) \<longrightarrow>
                filter is_api_call ext
                  = map HttpGet (concat (map (\<lambda>d. map (API_BASE_URL d) CATEGORIES) ds)))"
  using assms
proof (induction ds arbitrary: mc tr)
  case Nil
  then show ?case by auto
next
  case (Cons d ds)
  let ?l = "Log ''INFO'' (''Fetching additional metadata for domain '' @ d @ ''.'')"
  obtain r1 tr1 where c: "fetch_categories env d CATEGORIES [] (tr @ [?l]) = (r1, tr1)"
    by (cases "fetch_categories env d CATEGORIES [] (tr @ [?l])")
  from fetch_categories_trace [OF c] obtain ext1 where
    e1: "tr1 = (tr @ [?l]) @ ext1" "list_all is_api_call ext1"
      "(\<exists>x. r1 = Inr x) \<longrightarrow> ext1 = map (\<lambda>c. HttpGet (API_BASE_URL d c)) CATEGORIES"
    by blast
  have aux1: "list_all is_aux_kind ext1" "filter is_aux_commit ext1 = []"
    using e1(2) by (auto simp: list_all_iff filter_empty_conv dest: is_api_call_others)
  show ?case
  proof (cases r1)
    case (Inl e)
    with Cons.prems c have "tr' = tr1" "r = Inl e" by auto
    with e1 aux1 have "tr' = tr @ (?l # ext1)" "list_all is_aux_kind (?l # ext1)"
      "filter is_aux_commit (?l # ext1) = []" "\<not> (\<exists>x. r = Inr x)"
      by auto
    then show ?thesis by blast
  next
    case (Inr dm)
    with Cons.prems c have "fetch_domains env ds (dict_set mc d (JObj dm)) tr1 = (r, tr')"
      by simp
    from Cons.IH [OF this] obtain ext2 where
      e2: "tr' = tr1 @ ext2" "list_all is_aux_kind ext2" "filter is_aux_commit ext2 = []"
        "(\<exists>x. r = Inr x) \<longrightarrow> filter is_api_call ext2
           = map HttpGet (concat (map (\<lambda>d. map (API_BASE_URL d) CATEGORIES) ds))"
      by blast
    from Inr e1(3) have ext1: "ext1 = map (\<lambda>c. HttpGet (API_BASE_URL d c)) CATEGORIES" by blast
    have f1: "filter is_api_call ext1 = map HttpGet (map (API_BASE_URL d) CATEGORIES)"
      unfolding ext1 by (simp add: filter_True)
    have "tr' = tr @ (?l # ext1 @ ext2)" using e1(1) e2(1) by simp
    moreover have "list_all is_aux_kind (?l # ext1 @ ext2)" using aux1 e2(2) by simp
    moreover have "filter is_aux_commit (?l # ext1 @ ext2) = []" using aux1 e2(3) by simp
    moreover have "(\<exists>x. r = Inr x) \<longrightarrow> filter is_api_call (?l # ext1 @ ext2)
        = map HttpGet (concat (map (\<lambda>d. map (API_BASE_URL d) CATEGORIES) (d # ds)))"
      using f1 e2(4) by simp
    ultimately show ?thesis by blast
  qed
qed

lemma create_metadata_version:
  "create_metadata env self = DatasetObject md \<Longrightarrow> carries_version (VERSION env) md"
  by (auto simp: create_metadata_def carries_version_def)

lemma is_aux_kind_versioned:
  assumes "is_aux_kind ev" and "\<not> is_aux_commit ev"
  shows "versioned env ev"
  using assms by (cases ev rule: is_aux_kind.cases; simp add: versioned_def)

lemma probes_aux [simp]: "list_all is_aux_kind ext \<Longrightarrow> probes ext = []"
  by (induction ext rule: probes.induct) simp_all

lemma filter_aux [simp]:
  assumes "list_all is_aux_kind ext"
  shows "filter is_consult ext = []" "filter is_primary_commit ext = []"
  using assms by (auto simp: filter_empty_conv list_all_iff dest: is_aux_kind_others)

lemma additional_to_walden_trace:
  assumes "additional_to_walden env self tr = (r, tr')"
  shows "\<exists>ext. tr' = tr @ ext \<and> list_all is_aux_kind ext \<and> list_all (versioned env) ext
           \<and> (r = Inr () \<longrightarrow>
                (\<exists>ext0 f. ext = ext0 @ [AddToCatalog (create_metadata env self) f])
                \<and> filter is_api_call ext = map HttpGet all_api_urls)"
proof (cases "named_temporary_file env tr")
  case (Inl e)
  with assms have "tr' = tr @ [TempFile]" "r = Inl e"
    by (auto simp: additional_to_walden_def)
  then show ?thesis by (auto simp: versioned_def)
next
  case f: (Inr f)
  let ?tr1 = "tr @ [TempFile]"
  obtain r1 tr2 where d: "fetch_domains env INCLUDED_DATASETS_CODES [] ?tr1 = (r1, tr2)"
    by (cases "fetch_domains env INCLUDED_DATASETS_CODES [] ?tr1")
  from fetch_domains_trace [OF d] obtain ext1 where
    e1: "tr2 = ?tr1 @ ext1" "list_all is_aux_kind ext1" "filter is_aux_commit ext1 = []"
      "(\<exists>x. r1 = Inr x) \<longrightarrow> filter is_api_call ext1 = map HttpGet all_api_urls"
    unfolding all_api_urls_def by blast
  have v1: "list_all (versioned env) ext1"
    using e1(2,3) by (auto simp: list_all_iff filter_empty_conv intro: is_aux_kind_versioned)
  show ?thesis
  proof (cases r1)
    case (Inl e)
    with assms f d have "tr' = tr2" "r = Inl e"
      by (auto simp: additional_to_walden_def fetch_additional_metadata_def)
    with e1 v1 have "tr' = tr @ (TempFile # ext1)" "list_all is_aux_kind (TempFile # ext1)"
      "list_all (versioned env) (TempFile # ext1)" "r \<noteq> Inr ()"
      by (auto simp: versioned_def)
    then show ?thesis by blast
  next
    case mc: (Inr mc)
    let ?j = "JsonDump f (JObj mc)"
    show ?thesis
    proof (cases "json_dump env tr2 f (JObj mc)")
      case (Inl e)
      with assms f d mc have "tr' = tr2 @ [?j]" "r = Inl e"
        by (auto simp: additional_to_walden_def fetch_additional_metadata_def)
      with e1 v1 have "tr' = tr @ (TempFile # ext1 @ [?j])"
        "list_all is_aux_kind (TempFile # ext1 @ [?j])"
        "list_all (versioned env) (TempFile # ext1 @ [?j])" "r \<noteq> Inr ()"
        by (auto simp: versioned_def)
      then show ?thesis by blast
    next
      case (Inr u)
      let ?c = "AddToCatalog (create_metadata env self) f"
      from assms f d mc Inr have tr': "tr' = tr2 @ [?j, ?c]"
        by (auto simp: additional_to_walden_def fetch_additional_metadata_def)
      obtain md where md: "create_metadata env self = DatasetObject md"
        by (simp add: create_metadata_def)
      then have vc: "versioned env ?c" "is_aux_kind ?c"
        using create_metadata_version [OF md] by (simp_all add: versioned_def)
      let ?ext = "TempFile # ext1 @ [?j, ?c]"
      have "tr' = tr @ ?ext" using tr' e1(1) by simp
      moreover have "list_all is_aux_kind ?ext" using e1(2) vc by simp
      moreover have "list_all (versioned env) ?ext" using v1 vc by (simp add: versioned_def)
      moreover have "\<exists>ext0 f. ?ext = ext0 @ [AddToCatalog (create_metadata env self) f]"
      proof -
        have "?ext = (TempFile # ext1 @ [?j]) @ [?c]" by simp
        then show ?thesis by blast
      qed
      moreover have "filter is_api_call ?ext = map HttpGet all_api_urls"
        using e1(4) mc md by simp
      ultimately show ?thesis by blast
    qed
  qed
qed

lemma main_unfold:
  assumes "requests_get_catalog env [] = Inr catalog"
    and "main_loop env catalog False [HttpGet FAO_CATALOG_URL] = (r, tr2)"
  shows "main env [] =
     (case r of
        Inl e \<Rightarrow> (Inl e, tr2)
      | Inr upd \<Rightarrow>
          if upd then additional_to_walden env (FAOAdditionalMetadata_init env tr2) tr2
          else (Inr (), tr2 @ [Log ''INFO'' no_need_message]))"
  using assms by (cases r) (simp_all add: main_def load_faostat_catalog_def)

lemma main_no_catalog:
  assumes "requests_get_catalog env [] = Inl e"
  shows "main env [] = (Inl e, [HttpGet FAO_CATALOG_URL])"
  using assms by (simp add: main_def load_faostat_catalog_def)

lemma not_api_catalog [simp]: "\<not> prefix API_PREFIX FAO_CATALOG_URL"
  by (simp add: API_PREFIX_def FAO_CATALOG_URL_def)

text \<open>The trace of a run in every case.\<close>

lemma main_trace:
  "(\<exists>e. main env [] = (Inl e, [HttpGet FAO_CATALOG_URL]))
   \<or> (\<exists>catalog r tr2. requests_get_catalog env [] = Inr catalog
        \<and> main_loop env catalog False [HttpGet FAO_CATALOG_URL] = (r, tr2)
        \<and> ((\<exists>e. r = Inl e \<and> main env [] = (Inl e, tr2))
           \<or> (r = Inr False \<and> main env [] = (Inr (), tr2 @ [Log ''INFO'' no_need_message]))
           \<or> (r = Inr True \<and> (\<exists>ra ext. main env [] = (ra, tr2 @ ext) \<and> list_all is_aux_kind ext
                 \<and> list_all (versioned env) ext))))"
proof (cases "requests_get_catalog env []")
  case (Inl e)
  then show ?thesis using main_no_catalog by blast
next
  case (Inr catalog)
  obtain r tr2 where l: "main_loop env catalog False [HttpGet FAO_CATALOG_URL] = (r, tr2)"
    by (cases "main_loop env catalog False [HttpGet FAO_CATALOG_URL]")
  note m = main_unfold [OF Inr l]
  show ?thesis
  proof (cases r)
    case (Inl e)
    with m Inr l show ?thesis by auto
  next
    case upd: (Inr upd)
    show ?thesis
    proof (cases upd)
      case False
      with m Inr l upd show ?thesis by auto
    next
      case True
      obtain ra tr3 where
        a: "additional_to_walden env (FAOAdditionalMetadata_init env tr2) tr2 = (ra, tr3)"
        by (cases "additional_to_walden env (FAOAdditionalMetadata_init env tr2) tr2")
      from additional_to_walden_trace [OF a] obtain ext where
        "tr3 = tr2 @ ext" "list_all is_aux_kind ext" "list_all (versioned env) ext" by blast
      with m Inr l upd True a show ?thesis by auto
    qed
  qed
qed

lemmas const_defs = NAMESPACE_def FAO_DATA_URL_def SOURCE_NAME_def LICENSE_URL_def
  LICENSE_NAME_def INCLUDED_DATASETS_CODES_def VERSION_def

lemmas sample_defs = sample_env_def with_index_def desc_ae_def desc_af_def desc_zz_def
  ae_url_def af_url_def last_modified_text_def doc_later_def doc_af_later_def
  doc_same_day_def doc_malformed_def

lemmas step_defs = loop_body_def FAODataset_init_def source_data_url_def modification_date_def
  header_subscript_def is_dataset_already_up_to_date_def to_walden_def subscript_def
  dict_get_def lower_def is_upper_def

lemma zfill_samples:
  "zfill 4 2021 = ''2021''" "zfill 2 6 = ''06''" "zfill 2 21 = ''21''"
  "zfill 2 5 = ''05''" "zfill 2 20 = ''20''" "str_nat 2021 = ''2021''"
  by (simp_all add: zfill_def str_nat.simps digit_char_def)

lemma fromiso_samples:
  "fromisoformat_date t (PStr ''2021-05-20'') = Inr (Date 2021 5 20)"
  "fromisoformat_date t (PStr ''2021-05-21'') = Inr (Date 2021 5 21)"
  "fromisoformat_date (fromisoformat_other sample_env) (PStr ''June 1, 2021'')
     = Inl (PyExc ''ValueError'')"
  by (simp_all add: is_digit_def digit_val_def make_date_def valid_date_def days_in_month_def
      sample_env_def)

declare fromisoformat_date.simps(1) [simp del]

lemma metadata_ae:
  "metadata sample_env \<lparr>dataset_metadata = desc_ae, dataset_server_metadata = hs\<rparr> = Inr md_ae"
  by (simp add: metadata_def short_name_def publication_year_def publication_date_def
      source_data_url_def subscript_def lower_def is_upper_def const_defs sample_defs
      fromiso_samples zfill_samples md_ae_def)

lemma loop_body_zz: "loop_body env desc_zz upd tr = (Inr upd, tr)"
  by (simp add: loop_body_def subscript_def lower_def is_upper_def desc_zz_def
      INCLUDED_DATASETS_CODES_def)

lemma head_fails_catalog: "requests_get_catalog head_fails_env tr = Inr [desc_ae, desc_zz, desc_af]"
  by (simp add: head_fails_env_def sample_env_def)

lemma loop_body_ae_head_fails:
  "loop_body head_fails_env desc_ae upd tr = (Inl (PyExc ''ConnectionError''), tr @ [HttpHead ae_url])"
  by (simp add: head_fails_env_def step_defs sample_defs const_defs)

lemma main_head_fails:
  "main head_fails_env [] = (Inl (PyExc ''ConnectionError''), [HttpGet FAO_CATALOG_URL, HttpHead ae_url])"
  by (simp add: main_def load_faostat_catalog_def head_fails_catalog loop_body_ae_head_fails)

lemma parse_fails_catalog: "requests_get_catalog parse_fails_env tr = Inr [desc_ae, desc_zz, desc_af]"
  by (simp add: parse_fails_env_def sample_env_def)

lemma metadata_ae_parse_fails:
  "metadata parse_fails_env \<lparr>dataset_metadata = desc_ae, dataset_server_metadata = hs\<rparr> = Inr md_ae"
  by (simp add: metadata_def short_name_def publication_year_def publication_date_def
      source_data_url_def subscript_def lower_def is_upper_def const_defs sample_defs
      fromiso_samples zfill_samples md_ae_def parse_fails_env_def)

lemma oracle_ae_parse_fails:
  "is_dataset_already_up_to_date parse_fails_env ae_url (Date 2021 6 3) tr
     = (Inr False, tr @ [IterDocs NAMESPACE])"
  by (simp add: is_dataset_already_up_to_date_def parse_fails_env_def sample_defs dict_get_def
      strptime_samples)

lemma loop_body_ae_parse_fails:
  "loop_body parse_fails_env desc_ae upd tr =
     (Inr True, tr @ [HttpHead ae_url, IterDocs NAMESPACE, TempFile, Download ae_url ''/tmp/tmp0'',
        AddToCatalog (MetadataDict md_ae) ''/tmp/tmp0''])"
proof -
  have code: "subscript desc_ae ''DatasetCode'' = Inr (PStr ''AE'')"
    and loc: "subscript desc_ae ''FileLocation'' = Inr ae_url"
    by (simp_all add: subscript_def desc_ae_def)
  have low: "lower ''AE'' = ''ae''"
    by (simp add: lower_def is_upper_def)
  have inc: "''ae'' \<in> set INCLUDED_DATASETS_CODES"
    by (simp add: INCLUDED_DATASETS_CODES_def)
  have head: "requests_head parse_fails_env t ae_url = Inr [(''Last-Modified'', last_modified_text)]"
    for t by (simp add: parse_fails_env_def sample_env_def ae_url_def af_url_def)
  have tmp: "named_temporary_file parse_fails_env t = Inr ''/tmp/tmp0''"
    and dl: "files_download parse_fails_env t u f = Inr ()"
    and add: "add_to_catalog parse_fails_env t a f = Inr ()"
    for t u f a by (simp_all add: parse_fails_env_def sample_env_def)
  have modf: "modification_date parse_fails_env
      \<lparr>dataset_metadata = desc_ae, dataset_server_metadata = [(''Last-Modified'', last_modified_text)]\<rparr> t
      = Inr (Date 2021 6 3)" for t
    by (simp add: modification_date_def header_subscript_def lower_def is_upper_def
        parse_fails_env_def sample_env_def)
  show ?thesis
    by (simp add: loop_body_def code low inc FAODataset_init_def source_data_url_def loc head
        modf oracle_ae_parse_fails to_walden_def tmp dl add metadata_ae_parse_fails)
qed

lemma loop_body_af_parse_fails:
  "loop_body parse_fails_env desc_af upd tr = (Inl (PyExc ''ParserError''), tr @ [HttpHead af_url])"
  by (simp add: parse_fails_env_def step_defs sample_defs const_defs)

lemma main_parse_fails:
  "main parse_fails_env [] =
     (Inl (PyExc ''ParserError''),
      [HttpGet FAO_CATALOG_URL, HttpHead ae_url, IterDocs NAMESPACE, TempFile,
       Download ae_url ''/tmp/tmp0'', AddToCatalog (MetadataDict md_ae) ''/tmp/tmp0'',
       HttpHead af_url])"
  by (simp add: main_def load_faostat_catalog_def parse_fails_catalog loop_body_ae_parse_fails
      loop_body_zz loop_body_af_parse_fails)

lemma allow_listed_samples:
  "allow_listed desc_ae" "allow_listed desc_af" "\<not> allow_listed desc_zz"
  "file_location desc_ae = ae_url" "file_location desc_af = af_url"
  by (simp_all add: allow_listed_def file_location_def subscript_def dict_get_def lower_def
      is_upper_def desc_ae_def desc_af_def desc_zz_def INCLUDED_DATASETS_CODES_def)

subsection \<open>A failure ends the run\<close>

text \<open>
  C3, as the code has it. \<open>main\<close> has no exception handler: when the body of the loop
  raises for one descriptor, after the descriptors before it were processed, the exception
  leaves \<open>main\<close> and the history of the run ends where the failing step ended. No later
  descriptor is processed and the additional metadata is not fetched.
\<close>

theorem failure_aborts_run:
  assumes "requests_get_catalog env [] = Inr (pre @ d # post)"
    and "main_loop env pre False [HttpGet FAO_CATALOG_URL] = (Inr upd, tr1)"
    and "loop_body env d upd tr1 = (Inl e, tr2)"
  shows "main env [] = (Inl e, tr2)"
proof -
  have "main_loop env (pre @ d # post) False [HttpGet FAO_CATALOG_URL] = (Inl e, tr2)"
    using assms(2,3) by (simp add: main_loop_append)
  with assms(1) show ?thesis by (simp add: main_def load_faostat_catalog_def)
qed

theorem failure_aborts_run_witness:
  "main parse_fails_env [] =
     (Inl (PyExc ''ParserError''),
      [HttpGet FAO_CATALOG_URL, HttpHead ae_url, IterDocs NAMESPACE, TempFile,
       Download ae_url ''/tmp/tmp0'', AddToCatalog (MetadataDict md_ae) ''/tmp/tmp0'',
       HttpHead af_url])"
  using failure_aborts_run [of parse_fails_env "[desc_ae, desc_zz]" desc_af "[]" True
      "[HttpGet FAO_CATALOG_URL, HttpHead ae_url, IterDocs NAMESPACE, TempFile,
        Download ae_url ''/tmp/tmp0'', AddToCatalog (MetadataDict md_ae) ''/tmp/tmp0'']"
      "PyExc ''ParserError''"
      "[HttpGet FAO_CATALOG_URL, HttpHead ae_url, IterDocs NAMESPACE, TempFile,
        Download ae_url ''/tmp/tmp0'', AddToCatalog (MetadataDict md_ae) ''/tmp/tmp0'',
        HttpHead af_url]"]
  by (simp add: parse_fails_catalog loop_body_ae_parse_fails loop_body_zz loop_body_af_parse_fails)

text \<open>
  C3 as stated fails: the header request for \<open>AE\<close> raises, and the run ends there. The
  allow-listed \<open>AF\<close>, later in the catalog, is never probed.
\<close>

theorem failure_counterexample:
  "requests_get_catalog head_fails_env [] = Inr [desc_ae, desc_zz, desc_af]
   \<and> allow_listed desc_af
   \<and> main head_fails_env [] =
       (Inl (PyExc ''ConnectionError''), [HttpGet FAO_CATALOG_URL, HttpHead ae_url])"
  by (simp add: head_fails_catalog allow_listed_samples main_head_fails)

subsection \<open>The additional metadata\<close>

text \<open>What comes before an event of the additional metadata in the history of a run.\<close>

lemma split_after_prefix:
  assumes "a @ b = pre @ ev # post" and "ev \<notin> set a"
  shows "\<exists>us. pre = a @ us"
  using assms
proof (induction a arbitrary: pre)
  case Nil
  show ?case by simp
next
  case (Cons x a)
  show ?case
  proof (cases pre)
    case Nil
    with Cons.prems show ?thesis by simp
  next
    case c: (Cons p pre')
    with Cons.prems have "a @ b = pre' @ ev # post" "ev \<notin> set a" "x = p" by simp_all
    with Cons.IH [of pre'] c show ?thesis by simp
  qed
qed

lemma aux_after_commit:
  assumes "snd (main env []) = pre @ ev # post" and "is_api_call ev \<or> is_aux_commit ev"
  shows "filter is_primary_commit pre \<noteq> []"
proof -
  have absent: "ev \<notin> set tr"
    if "filter is_api_call tr = []" "filter is_aux_commit tr = []" for tr
  proof
    assume "ev \<in> set tr"
    with that have "\<not> is_api_call ev" "\<not> is_aux_commit ev"
      unfolding filter_empty_conv by blast+
    with assms(2) show False by simp
  qed
  have mem: "ev \<in> set (snd (main env []))"
    unfolding assms(1) by simp
  have start: "filter is_api_call [HttpGet FAO_CATALOG_URL] = []"
    "filter is_aux_commit [HttpGet FAO_CATALOG_URL] = []"
    by simp_all
  from main_trace [of env] show ?thesis
  proof (elim disjE exE conjE)
    fix e assume "main env [] = (Inl e, [HttpGet FAO_CATALOG_URL])"
    with mem have "ev \<in> set [HttpGet FAO_CATALOG_URL]" by simp
    with absent [OF start] show ?thesis by simp
  next
    fix catalog r tr2 e
    assume l: "main_loop env catalog False [HttpGet FAO_CATALOG_URL] = (r, tr2)"
      and "main env [] = (Inl e, tr2)"
    with mem have "ev \<in> set tr2" by simp
    moreover from main_loop_no_aux [OF l] start
    have "filter is_api_call tr2 = []" "filter is_aux_commit tr2 = []" by simp_all
    ultimately show ?thesis using absent [of tr2] by simp
  next
    fix catalog r tr2
    assume l: "main_loop env catalog False [HttpGet FAO_CATALOG_URL] = (r, tr2)"
      and "main env [] = (Inr (), tr2 @ [Log ''INFO'' no_need_message])"
    with mem have "ev \<in> set (tr2 @ [Log ''INFO'' no_need_message])" by simp
    moreover from main_loop_no_aux [OF l] start
    have "filter is_api_call (tr2 @ [Log ''INFO'' no_need_message]) = []"
      "filter is_aux_commit (tr2 @ [Log ''INFO'' no_need_message]) = []"
      by simp_all
    ultimately show ?thesis using absent [of "tr2 @ [Log ''INFO'' no_need_message]"] by simp
  next
    fix catalog r tr2 ra ext
    assume l: "main_loop env catalog False [HttpGet FAO_CATALOG_URL] = (r, tr2)"
      and r: "r = Inr True" and m: "main env [] = (ra, tr2 @ ext)"
    from l r have l': "main_loop env catalog False [HttpGet FAO_CATALOG_URL] = (Inr True, tr2)"
      by simp
    from main_loop_flag [OF l']
    have "length (filter is_primary_commit [HttpGet FAO_CATALOG_URL])
        < length (filter is_primary_commit tr2)" by simp
    then have c: "filter is_primary_commit tr2 \<noteq> []" by (cases "filter is_primary_commit tr2") simp_all
    from main_loop_no_aux [OF l] start
    have "filter is_api_call tr2 = []" "filter is_aux_commit tr2 = []" by simp_all
    then have notin: "ev \<notin> set tr2" by (rule absent)
    from assms(1) [unfolded m snd_conv] have eq: "tr2 @ ext = pre @ ev # post" .
    from split_after_prefix [OF eq notin] obtain us where "pre = tr2 @ us" ..
    with c show ?thesis by simp
  qed
qed

text \<open>
  C4, as the code has it. In any run, whatever its outcome, the history before an API
  request or before a commit of the additional metadata holds a commit of a primary
  dataset: the additional metadata are touched only after a primary commit. When the loop over the
  catalog finishes without an exception, the flag is true exactly when a primary dataset
  was committed; \<open>main\<close> then goes on with the additional metadata if the flag is true, and
  otherwise logs the message at level INFO and returns, with no API request and no commit
  of additional metadata in the run. When the flag is true and \<open>main\<close> returns, every API
  address was requested and the last call of the run committed the additional metadata.
\<close>

theorem auxiliary_refresh_iff_update:
  "(snd (main env []) = pre @ ev # post \<and> (is_api_call ev \<or> is_aux_commit ev)
      \<longrightarrow> filter is_primary_commit pre \<noteq> [])
   \<and> (requests_get_catalog env [] = Inr catalog
        \<and> main_loop env catalog False [HttpGet FAO_CATALOG_URL] = (Inr upd, tr2) \<longrightarrow>
        upd = (filter is_primary_commit tr2 \<noteq> [])
      \<and> main env [] =
          (if upd then additional_to_walden env (FAOAdditionalMetadata_init env tr2) tr2
           else (Inr (), tr2 @ [Log ''INFO'' no_need_message]))
      \<and> (\<not> upd \<longrightarrow> filter is_api_call (snd (main env [])) = []
                  \<and> filter is_aux_commit (snd (main env [])) = [])
      \<and> (upd \<and> fst (main env []) = Inr () \<longrightarrow>
            filter is_api_call (snd (main env [])) = map HttpGet all_api_urls
          \<and> (\<exists>f. last (snd (main env [])) =
                AddToCatalog (create_metadata env (FAOAdditionalMetadata_init env tr2)) f)))"
proof (intro conjI impI)
  assume "snd (main env []) = pre @ ev # post \<and> (is_api_call ev \<or> is_aux_commit ev)"
  then have split: "snd (main env []) = pre @ ev # post"
    and kind: "is_api_call ev \<or> is_aux_commit ev" by simp_all
  from aux_after_commit [OF split kind] show "filter is_primary_commit pre \<noteq> []" .
next
  assume a: "requests_get_catalog env [] = Inr catalog
      \<and> main_loop env catalog False [HttpGet FAO_CATALOG_URL] = (Inr upd, tr2)"
  then have cat: "requests_get_catalog env [] = Inr catalog"
    and loop: "main_loop env catalog False [HttpGet FAO_CATALOG_URL] = (Inr upd, tr2)"
    by simp_all
  from main_loop_flag [OF loop] show flag: "upd = (filter is_primary_commit tr2 \<noteq> [])"
    by auto
  from main_unfold [OF cat loop] show m: "main env [] =
      (if upd then additional_to_walden env (FAOAdditionalMetadata_init env tr2) tr2
       else (Inr (), tr2 @ [Log ''INFO'' no_need_message]))"
    by simp
  from main_loop_no_aux [OF loop] have clean:
    "filter is_api_call tr2 = []" "filter is_aux_commit tr2 = []" by simp_all
  {
    assume "\<not> upd"
    with m clean show "filter is_api_call (snd (main env [])) = []"
      and "filter is_aux_commit (snd (main env [])) = []" by simp_all
  }
  {
    assume u: "upd \<and> fst (main env []) = Inr ()"
    obtain ra tr3 where
      w: "additional_to_walden env (FAOAdditionalMetadata_init env tr2) tr2 = (ra, tr3)"
      by (cases "additional_to_walden env (FAOAdditionalMetadata_init env tr2) tr2")
    from u m w have "main env [] = (ra, tr3)" by simp
    with u have ra: "ra = Inr ()" and m3: "main env [] = (Inr (), tr3)" by simp_all
    from additional_to_walden_trace [OF w] ra obtain ext ext0 f where
      e: "tr3 = tr2 @ ext" "filter is_api_call ext = map HttpGet all_api_urls"
        "ext = ext0 @ [AddToCatalog (create_metadata env (FAOAdditionalMetadata_init env tr2)) f]"
      by blast
    from e clean m3 show "filter is_api_call (snd (main env [])) = map HttpGet all_api_urls"
      by simp
    from e m3 show "\<exists>f. last (snd (main env [])) =
        AddToCatalog (create_metadata env (FAOAdditionalMetadata_init env tr2)) f"
      by simp
  }
qed

lemma fresh_catalog: "requests_get_catalog fresh_env tr = Inr [desc_ae, desc_zz, desc_af]"
  by (simp add: fresh_env_def sample_env_def with_index_def)

lemma loop_body_ae_fresh:
  "loop_body fresh_env desc_ae upd tr =
     (Inr upd, tr @ [HttpHead ae_url, IterDocs NAMESPACE,
        Log ''INFO'' (up_to_date_message ''faostat/2021-06-04/faostat_ae.json'')])"
  by (simp add: fresh_env_def step_defs sample_defs const_defs strptime_samples
      up_to_date_message_def)

lemma loop_body_af_fresh:
  "loop_body fresh_env desc_af upd tr =
     (Inr upd, tr @ [HttpHead af_url, IterDocs NAMESPACE,
        Log ''INFO'' (up_to_date_message ''faostat/2021-06-04/faostat_af.json'')])"
  by (simp add: fresh_env_def step_defs sample_defs const_defs strptime_samples
      up_to_date_message_def)

lemma main_loop_fresh:
  "main_loop fresh_env [desc_ae, desc_zz, desc_af] False [HttpGet FAO_CATALOG_URL] =
     (Inr False,
      [HttpGet FAO_CATALOG_URL,
       HttpHead ae_url, IterDocs NAMESPACE,
       Log ''INFO'' (up_to_date_message ''faostat/2021-06-04/faostat_ae.json''),
       HttpHead af_url, IterDocs NAMESPACE,
       Log ''INFO'' (up_to_date_message ''faostat/2021-06-04/faostat_af.json'')])"
  by (simp add: loop_body_ae_fresh loop_body_zz loop_body_af_fresh)

lemma sample_catalog: "requests_get_catalog sample_env tr = Inr [desc_ae, desc_zz, desc_af]"
  by (simp add: sample_env_def)

lemma oracle_ae_sample:
  "is_dataset_already_up_to_date sample_env ae_url (Date 2021 6 3) tr
     = (Inr False, tr @ [IterDocs NAMESPACE])"
  by (simp add: is_dataset_already_up_to_date_def sample_defs dict_get_def strptime_samples)

lemma loop_body_ae_sample:
  "loop_body sample_env desc_ae upd tr =
     (Inr True, tr @ [HttpHead ae_url, IterDocs NAMESPACE, TempFile, Download ae_url ''/tmp/tmp0'',
        AddToCatalog (MetadataDict md_ae) ''/tmp/tmp0''])"
proof -
  have code: "subscript desc_ae ''DatasetCode'' = Inr (PStr ''AE'')"
    and loc: "subscript desc_ae ''FileLocation'' = Inr ae_url"
    by (simp_all add: subscript_def desc_ae_def)
  have low: "lower ''AE'' = ''ae''"
    by (simp add: lower_def is_upper_def)
  have inc: "''ae'' \<in> set INCLUDED_DATASETS_CODES"
    by (simp add: INCLUDED_DATASETS_CODES_def)
  have head: "requests_head sample_env t ae_url = Inr [(''Last-Modified'', last_modified_text)]"
    for t by (simp add: sample_env_def)
  have tmp: "named_temporary_file sample_env t = Inr ''/tmp/tmp0''"
    and dl: "files_download sample_env t u f = Inr ()"
    and add: "add_to_catalog sample_env t a f = Inr ()"
    for t u f a by (simp_all add: sample_env_def)
  have modf: "modification_date sample_env
      \<lparr>dataset_metadata = desc_ae, dataset_server_metadata = [(''Last-Modified'', last_modified_text)]\<rparr> t
      = Inr (Date 2021 6 3)" for t
    by (simp add: modification_date_def header_subscript_def lower_def is_upper_def sample_env_def)
  show ?thesis
    by (simp add: loop_body_def code low inc FAODataset_init_def source_data_url_def loc head
        modf oracle_ae_sample to_walden_def tmp dl add metadata_ae)
qed

lemma loop_body_af_sample:
  "loop_body sample_env desc_af upd tr =
     (Inr upd, tr @ [HttpHead af_url, IterDocs NAMESPACE,
        Log ''INFO'' (up_to_date_message ''faostat/2021-06-04/faostat_af.json'')])"
  by (simp add: step_defs sample_defs const_defs strptime_samples up_to_date_message_def)

lemma main_loop_sample:
  "main_loop sample_env [desc_ae, desc_zz, desc_af] False [HttpGet FAO_CATALOG_URL] =
     (Inr True, sample_loop_trace)"
  by (simp add: loop_body_ae_sample loop_body_zz loop_body_af_sample sample_loop_trace_def)

text \<open>The run in the world whose API fails: the first request ends it.\<close>

lemma steps_ignore_api:
  "FAODataset_init (env\<lparr>requests_get_api := g\<rparr>) d tr = FAODataset_init env d tr"
  "modification_date (env\<lparr>requests_get_api := g\<rparr>) self tr = modification_date env self tr"
  "is_dataset_already_up_to_date (env\<lparr>requests_get_api := g\<rparr>) url m tr
     = is_dataset_already_up_to_date env url m tr"
  "metadata (env\<lparr>requests_get_api := g\<rparr>) self = metadata env self"
  by (simp_all add: FAODataset_init_def modification_date_def is_dataset_already_up_to_date_def
      metadata_def publication_year_def publication_date_def VERSION_def)

lemma to_walden_ignores_api:
  "to_walden (env\<lparr>requests_get_api := g\<rparr>) self tr = to_walden env self tr"
  by (simp add: to_walden_def steps_ignore_api)

lemma loop_body_ignores_api:
  "loop_body (env\<lparr>requests_get_api := g\<rparr>) d upd tr = loop_body env d upd tr"
  by (simp add: loop_body_def steps_ignore_api to_walden_ignores_api cong: if_cong)

lemma main_loop_ignores_api:
  "main_loop (env\<lparr>requests_get_api := g\<rparr>) ds upd tr = main_loop env ds upd tr"
proof (induction ds arbitrary: upd tr)
  case Nil
  show ?case by simp
next
  case (Cons d ds)
  have "main_loop (env\<lparr>requests_get_api := g\<rparr>) ds = main_loop env ds"
    using Cons.IH by (intro ext)
  then show ?case by (simp add: loop_body_ignores_api)
qed

lemma api_fails_catalog: "requests_get_catalog api_fails_env tr = Inr [desc_ae, desc_zz, desc_af]"
  by (simp add: api_fails_env_def sample_env_def)

lemma main_loop_api_fails:
  "main_loop api_fails_env [desc_ae, desc_zz, desc_af] False [HttpGet FAO_CATALOG_URL] =
     (Inr True, sample_loop_trace)"
  unfolding api_fails_env_def main_loop_ignores_api by (rule main_loop_sample)

lemma fetch_categories_first_fails:
  assumes "requests_get_api env tr (API_BASE_URL domain c) = Inl e"
  shows "fetch_categories env domain (c # cs) dm tr = (Inl e, tr @ [HttpGet (API_BASE_URL domain c)])"
  using assms by simp

lemma fetch_domains_first_fails:
  assumes "fetch_categories env d CATEGORIES []
      (tr @ [Log ''INFO'' (''Fetching additional metadata for domain '' @ d @ ''.'')]) = (Inl e, tr')"
  shows "fetch_domains env (d # ds) mc tr = (Inl e, tr')"
  using assms by simp

lemma main_api_fails:
  "main api_fails_env [] =
     (Inl (PyExc ''ConnectionError''),
      sample_loop_trace @ [TempFile,
        Log ''INFO'' ''Fetching additional metadata for domain ae.'',
        HttpGet (API_BASE_URL ''ae'' ''itemgroup'')])"
proof -
  have tmp: "named_temporary_file api_fails_env t = Inr ''/tmp/tmp0''" for t
    by (simp add: api_fails_env_def sample_env_def)
  have api: "requests_get_api api_fails_env t u = Inl (PyExc ''ConnectionError'')" for t u
    by (simp add: api_fails_env_def sample_env_def)
  have cats: "CATEGORIES = ''itemgroup'' # tl CATEGORIES"
    and doms: "INCLUDED_DATASETS_CODES = ''ae'' # tl INCLUDED_DATASETS_CODES"
    by (simp_all add: CATEGORIES_def INCLUDED_DATASETS_CODES_def)
  let ?tr1 = "sample_loop_trace @ [TempFile]"
  let ?tr2 = "?tr1 @ [Log ''INFO'' (''Fetching additional metadata for domain '' @ ''ae'' @ ''.'')]"
  have c: "fetch_categories api_fails_env ''ae'' CATEGORIES [] ?tr2
      = (Inl (PyExc ''ConnectionError''), ?tr2 @ [HttpGet (API_BASE_URL ''ae'' ''itemgroup'')])"
    by (subst cats, rule fetch_categories_first_fails, rule api)
  have d: "fetch_domains api_fails_env INCLUDED_DATASETS_CODES [] ?tr1
      = (Inl (PyExc ''ConnectionError''), ?tr2 @ [HttpGet (API_BASE_URL ''ae'' ''itemgroup'')])"
    by (subst doms, rule fetch_domains_first_fails, rule c)
  have "additional_to_walden api_fails_env self sample_loop_trace =
     (Inl (PyExc ''ConnectionError''),
      sample_loop_trace @ [TempFile,
        Log ''INFO'' ''Fetching additional metadata for domain ae.'',
        HttpGet (API_BASE_URL ''ae'' ''itemgroup'')])" for self
    by (simp add: additional_to_walden_def fetch_additional_metadata_def tmp d)
  with main_unfold [OF api_fails_catalog main_loop_api_fails] show ?thesis by simp
qed

theorem auxiliary_refresh_iff_update_witness:
  "main fresh_env [] =
     (Inr (),
      [HttpGet FAO_CATALOG_URL,
       HttpHead ae_url, IterDocs NAMESPACE,
       Log ''INFO'' (up_to_date_message ''faostat/2021-06-04/faostat_ae.json''),
       HttpHead af_url, IterDocs NAMESPACE,
       Log ''INFO'' (up_to_date_message ''faostat/2021-06-04/faostat_af.json''),
       Log ''INFO'' no_need_message])
   \<and> filter is_api_call (snd (main fresh_env [])) = []
   \<and> main sample_env [] =
       additional_to_walden sample_env (FAOAdditionalMetadata_init sample_env sample_loop_trace)
         sample_loop_trace
   \<and> snd (main api_fails_env []) =
       (sample_loop_trace @ [TempFile, Log ''INFO'' ''Fetching additional metadata for domain ae.''])
         @ HttpGet (API_BASE_URL ''ae'' ''itemgroup'') # []
   \<and> is_api_call (HttpGet (API_BASE_URL ''ae'' ''itemgroup''))
   \<and> filter is_primary_commit
        (sample_loop_trace @ [TempFile, Log ''INFO'' ''Fetching additional metadata for domain ae.''])
       \<noteq> []"
proof -
  note fresh = auxiliary_refresh_iff_update [of fresh_env "[]" TempFile "[]"
      "[desc_ae, desc_zz, desc_af]" False
      "[HttpGet FAO_CATALOG_URL,
        HttpHead ae_url, IterDocs NAMESPACE,
        Log ''INFO'' (up_to_date_message ''faostat/2021-06-04/faostat_ae.json''),
        HttpHead af_url, IterDocs NAMESPACE,
        Log ''INFO'' (up_to_date_message ''faostat/2021-06-04/faostat_af.json'')]"]
  note stale = auxiliary_refresh_iff_update [of sample_env "[]" TempFile "[]"
      "[desc_ae, desc_zz, desc_af]" True sample_loop_trace]
  note order = auxiliary_refresh_iff_update [of api_fails_env
      "sample_loop_trace @ [TempFile, Log ''INFO'' ''Fetching additional metadata for domain ae.'']"
      "HttpGet (API_BASE_URL ''ae'' ''itemgroup'')" "[]", THEN conjunct1]
  have run: "snd (main api_fails_env []) =
       (sample_loop_trace @ [TempFile, Log ''INFO'' ''Fetching additional metadata for domain ae.''])
         @ HttpGet (API_BASE_URL ''ae'' ''itemgroup'') # []"
    by (simp add: main_api_fails)
  have api: "is_api_call (HttpGet (API_BASE_URL ''ae'' ''itemgroup''))"
    by simp
  from order run api have before: "filter is_primary_commit
        (sample_loop_trace @ [TempFile, Log ''INFO'' ''Fetching additional metadata for domain ae.''])
       \<noteq> []"
    by blast
  from fresh stale have "main fresh_env [] =
     (Inr (),
      [HttpGet FAO_CATALOG_URL,
       HttpHead ae_url, IterDocs NAMESPACE,
       Log ''INFO'' (up_to_date_message ''faostat/2021-06-04/faostat_ae.json''),
       HttpHead af_url, IterDocs NAMESPACE,
       Log ''INFO'' (up_to_date_message ''faostat/2021-06-04/faostat_af.json''),
       Log ''INFO'' no_need_message])
   \<and> filter is_api_call (snd (main fresh_env [])) = []
   \<and> main sample_env [] =
       additional_to_walden sample_env (FAOAdditionalMetadata_init sample_env sample_loop_trace)
         sample_loop_trace"
    by (simp add: fresh_catalog main_loop_fresh sample_catalog main_loop_sample
        del: main_loop.simps)
  with run api before show ?thesis by simp
qed

text \<open>
  C4 as stated fails: in this run \<open>AE\<close> is found stale and committed, then reading the
  modification date of \<open>AF\<close> raises. The run ends with one primary commit and without any
  API request or commit of the additional metadata.
\<close>

theorem auxiliary_refresh_counterexample:
  "main parse_fails_env [] =
     (Inl (PyExc ''ParserError''),
      [HttpGet FAO_CATALOG_URL, HttpHead ae_url, IterDocs NAMESPACE, TempFile,
       Download ae_url ''/tmp/tmp0'', AddToCatalog (MetadataDict md_ae) ''/tmp/tmp0'',
       HttpHead af_url])
   \<and> filter is_primary_commit (snd (main parse_fails_env [])) =
       [AddToCatalog (MetadataDict md_ae) ''/tmp/tmp0'']
   \<and> filter is_api_call (snd (main parse_fails_env [])) = []
   \<and> filter is_aux_commit (snd (main parse_fails_env [])) = []"
  by (simp add: main_parse_fails)

subsection \<open>The version tag\<close>

lemma create_metadata_dict_fields:
  assumes "create_metadata_dict env tr = (Inr md, tr')"
  shows "map_of md ''version'' = None
       \<and> map_of md ''date_accessed'' = Some (PStr (strftime_ymd (datetime_today env tr')))"
proof (cases "load_metadata_description env tr")
  case (Pair r tr1)
  with assms show ?thesis
    by (cases r) (auto simp: create_metadata_dict_def)
qed

lemma main_versioned: "list_all (versioned env) (snd (main env []))"
  using main_trace [of env]
proof (elim disjE exE conjE)
  fix e assume "main env [] = (Inl e, [HttpGet FAO_CATALOG_URL])"
  then show ?thesis by (simp add: versioned_def)
next
  fix catalog r tr2
  assume l: "main_loop env catalog False [HttpGet FAO_CATALOG_URL] = (r, tr2)"
  have v: "list_all (versioned env) tr2"
    using main_loop_versioned [OF l] by (simp add: versioned_def)
  {
    fix e assume "main env [] = (Inl e, tr2)"
    with v show ?thesis by simp
  next
    assume "main env [] = (Inr (), tr2 @ [Log ''INFO'' no_need_message])"
    with v show ?thesis by (simp add: versioned_def)
  next
    fix ra ext
    assume "main env [] = (ra, tr2 @ ext)" and "list_all (versioned env) ext"
    with v show ?thesis by simp
  }
qed

text \<open>
  C5, as the code has it. Every record committed in a run of the FAOSTAT pipeline, for a
  primary dataset or for the additional metadata, has the tag \<open>VERSION\<close> of the run in
  both \<open>version\<close> and \<open>date_accessed\<close>. The record of the World Bank pipeline has no field
  \<open>version\<close>; its \<open>date_accessed\<close> is the current date, formatted as \<open>%Y-%m-%d\<close>.
\<close>

theorem records_carry_version:
  "list_all (versioned env) (snd (main env []))
   \<and> (create_metadata_dict env tr = (Inr md, tr') \<longrightarrow>
        map_of md ''version'' = None
      \<and> map_of md ''date_accessed'' = Some (PStr (strftime_ymd (datetime_today env tr'))))"
  using main_versioned create_metadata_dict_fields by blast

lemma version_parse_fails: "VERSION parse_fails_env = ''2021-06-05''"
  by (simp add: VERSION_def parse_fails_env_def sample_env_def zfill_samples)

lemma wb_description:
  "load_metadata_description sample_env tr =
     (Inr (''Note.'' @ [CHR 0x0A, CHR 0x0A] @
        ''Income classifications set on 1 July 2021 remain in effect until 1 July 2022.''),
      tr @ [ReadExcel SOURCE_DATA_URL ''Notes''])"
  by (simp add: load_metadata_description_def sample_env_def)

lemma wb_record:
  "create_metadata_dict sample_env tr = (Inr wb_md, tr @ [ReadExcel SOURCE_DATA_URL ''Notes''])"
proof -
  have today: "datetime_today sample_env t = Date 2021 6 5" for t
    by (simp add: sample_env_def)
  show ?thesis
    by (simp add: create_metadata_dict_def wb_description wb_md_def SOURCE_DATA_URL_def
        today zfill_samples)
qed

theorem records_carry_version_witness:
  "carries_version ''2021-06-05'' md_ae
   \<and> map_of wb_md ''version'' = None
   \<and> map_of wb_md ''date_accessed'' = Some (PStr ''2021-06-05'')"
proof -
  have today: "datetime_today sample_env t = Date 2021 6 5" for t
    by (simp add: sample_env_def)
  from records_carry_version [of parse_fails_env]
  have "carries_version ''2021-06-05'' md_ae"
    by (simp add: main_parse_fails versioned_def version_parse_fails)
  moreover from records_carry_version [of sample_env "[]" wb_md
      "[ReadExcel SOURCE_DATA_URL ''Notes'']"]
  have "map_of wb_md ''version'' = None
      \<and> map_of wb_md ''date_accessed'' = Some (PStr ''2021-06-05'')"
    by (simp add: wb_record today zfill_samples)
  ultimately show ?thesis by simp
qed

text \<open>
  C5 as stated fails for the World Bank pipeline: the record it builds has no version tag
  at all.
\<close>

theorem records_carry_version_counterexample:
  "fst (create_metadata_dict sample_env []) = Inr wb_md \<and> map_of wb_md ''version'' = None"
  by (simp add: wb_record) (simp add: wb_md_def)

subsection \<open>Downloads follow the verdict of the oracle\<close>

lemma main_gated: "gated_from env [] (snd (main env []))"
  using main_trace [of env]
proof (elim disjE exE conjE)
  fix e assume "main env [] = (Inl e, [HttpGet FAO_CATALOG_URL])"
  then show ?thesis by simp
next
  fix catalog r tr2
  assume c: "requests_get_catalog env [] = Inr catalog"
    and l: "main_loop env catalog False [HttpGet FAO_CATALOG_URL] = (r, tr2)"
  have g: "gated_from env [] tr2"
    by (rule main_loop_gated [OF l _ c]) simp_all
  {
    fix e assume "main env [] = (Inl e, tr2)"
    with g show ?thesis by simp
  next
    assume "main env [] = (Inr (), tr2 @ [Log ''INFO'' no_need_message])"
    with g show ?thesis by (simp add: gated_from_append)
  next
    fix ra ext
    assume "main env [] = (ra, tr2 @ ext)" and "list_all is_aux_kind ext"
    with g show ?thesis by (simp add: gated_from_append gated_from_aux)
  }
qed

lemma wb_main_trace:
  "\<exists>ext. snd (wb_main env []) = ReadExcel SOURCE_DATA_URL ''Notes'' # ext
     \<and> (ext = [] \<or> ext = [TempFile]
        \<or> (\<exists>f. ext = [TempFile, Download (PStr SOURCE_DATA_URL) f])
        \<or> (\<exists>f md. ext = [TempFile, Download (PStr SOURCE_DATA_URL) f, AddToCatalog (MetadataDict md) f]))"
proof (cases "read_excel_notes env [] SOURCE_DATA_URL")
  case (Inl e)
  then show ?thesis
    by (simp add: wb_main_def create_metadata_dict_def load_metadata_description_def)
next
  case ns: (Inr ns)
  let ?tr1 = "[ReadExcel SOURCE_DATA_URL ''Notes'']"
  obtain md where md: "create_metadata_dict env [] = (Inr md, ?tr1)"
    and url: "subscript md ''source_data_url'' = Inr (PStr SOURCE_DATA_URL)"
    using ns
    by (simp add: create_metadata_dict_def load_metadata_description_def subscript_def)
  show ?thesis
  proof (cases "check_date md")
    case (Inl e)
    with md show ?thesis by (simp add: wb_main_def)
  next
    case chk: (Inr u)
    show ?thesis
    proof (cases "named_temporary_file env ?tr1")
      case (Inl e)
      with md chk show ?thesis by (simp add: wb_main_def)
    next
      case f: (Inr f)
      show ?thesis
      proof (cases "files_download env (?tr1 @ [TempFile]) (PStr SOURCE_DATA_URL) f")
        case (Inl e)
        with md chk f url show ?thesis by (simp add: wb_main_def)
      next
        case (Inr v)
        with md chk f url show ?thesis by (simp add: wb_main_def)
      qed
    qed
  qed
qed

lemma wb_main_after_check:
  assumes "create_metadata_dict env [] = (Inr wmd, tr1)" and "check_date wmd = Inr ()"
    and "named_temporary_file env tr1 = Inr tf"
  shows "wb_main env [] =
     bindS (files_download env (tr1 @ [TempFile]) (PStr SOURCE_DATA_URL) tf,
            tr1 @ [TempFile, Download (PStr SOURCE_DATA_URL) tf])
       (\<lambda>_ tr3. (add_to_catalog env tr3 (MetadataDict wmd) tf,
                  tr3 @ [AddToCatalog (MetadataDict wmd) tf]))"
proof -
  have url: "subscript wmd ''source_data_url'' = Inr (PStr SOURCE_DATA_URL)"
    using assms(1)
    by (cases "read_excel_notes env [] SOURCE_DATA_URL")
      (auto simp: create_metadata_dict_def load_metadata_description_def subscript_def)
  show ?thesis using assms url by (simp add: wb_main_def)
qed

lemma contains_sentence:
  "sublist income_sentence (''Note.'' @ [CHR 0x0A, CHR 0x0A] @
     ''Income classifications set on 1 July 2021 remain in effect until 1 July 2022.'')"
  by (simp add: income_sentence_def sublist_Cons_right)

lemma wb_check_sample: "check_date wb_md = Inr ()"
  using contains_sentence by (simp add: check_date_def subscript_def wb_md_def)

lemma wb_main_sample:
  "wb_main sample_env [] =
     (Inr (), [ReadExcel SOURCE_DATA_URL ''Notes'', TempFile,
        Download (PStr SOURCE_DATA_URL) ''/tmp/tmp0'',
        AddToCatalog (MetadataDict wb_md) ''/tmp/tmp0''])"
proof -
  have url: "subscript wb_md ''source_data_url'' = Inr (PStr SOURCE_DATA_URL)"
    by (simp add: subscript_def wb_md_def SOURCE_DATA_URL_def)
  have env: "named_temporary_file sample_env t = Inr ''/tmp/tmp0''"
    "files_download sample_env t u f = Inr ()" "add_to_catalog sample_env t a f = Inr ()"
    for t u f a by (simp_all add: sample_env_def)
  show ?thesis by (simp add: wb_main_def wb_record wb_check_sample url env)
qed

text \<open>
  C6, as the code has it. In the FAOSTAT pipeline every download is of the \<open>FileLocation\<close> of
  an allow-listed descriptor of the catalog, and the history right before it is: the header
  request for that address, the freshness check, the opening of the temporary file; the
  freshness check was called with that address and with the modification date read from
  the headers that this request returned, and it returned false. Every commit of a primary
  dataset comes right after the download into the same file. The World Bank pipeline never
  reads the index: once \<open>check_date\<close> has passed and the temporary file is open it calls the
  download, and when the download returns it commits the record.
\<close>

theorem download_follows_stale_verdict:
  "(snd (main env []) = pre @ Download url f # post \<longrightarrow>
      (\<exists>h catalog d headers m.
          pre = h @ [HttpHead url, IterDocs NAMESPACE, TempFile]
        \<and> requests_get_catalog env [] = Inr catalog \<and> d \<in> set catalog \<and> allow_listed d
        \<and> subscript d ''FileLocation'' = Inr url
        \<and> requests_head env h url = Inr headers
        \<and> modification_date env \<lparr>dataset_metadata = d, dataset_server_metadata = headers\<rparr>
              (h @ [HttpHead url]) = Inr m
        \<and> is_dataset_already_up_to_date env url m (h @ [HttpHead url])
            = (Inr False, h @ [HttpHead url, IterDocs NAMESPACE])))
   \<and> (snd (main env []) = pre @ AddToCatalog (MetadataDict md) f # post \<longrightarrow>
      (\<exists>h url. pre = h @ [Download url f]))
   \<and> filter is_consult (snd (wb_main env [])) = []
   \<and> (create_metadata_dict env [] = (Inr wmd, tr1) \<and> check_date wmd = Inr ()
        \<and> named_temporary_file env tr1 = Inr tf \<longrightarrow>
        prefix (tr1 @ [TempFile, Download (PStr SOURCE_DATA_URL) tf]) (snd (wb_main env []))
      \<and> (files_download env (tr1 @ [TempFile]) (PStr SOURCE_DATA_URL) tf = Inr () \<longrightarrow>
           snd (wb_main env []) =
             tr1 @ [TempFile, Download (PStr SOURCE_DATA_URL) tf,
                    AddToCatalog (MetadataDict wmd) tf]))"
proof (intro conjI impI)
  assume "snd (main env []) = pre @ Download url f # post"
  with main_gated [of env] have "gate_ok env pre (Download url f)"
    by (simp add: gated_from_append)
  then have "oracle_said_stale env pre url" by simp
  then obtain h catalog d where
    a: "pre = h @ [HttpHead url, IterDocs NAMESPACE, TempFile]"
      "requests_get_catalog env [] = Inr catalog" "d \<in> set catalog" "allow_listed d"
    and "found_stale env d h url"
    unfolding oracle_said_stale_def by (elim exE conjE)
  then obtain headers m where
    b: "subscript d ''FileLocation'' = Inr url" "requests_head env h url = Inr headers"
      "modification_date env \<lparr>dataset_metadata = d, dataset_server_metadata = headers\<rparr>
         (h @ [HttpHead url]) = Inr m"
      "is_dataset_already_up_to_date env url m (h @ [HttpHead url])
         = (Inr False, h @ [HttpHead url, IterDocs NAMESPACE])"
    unfolding found_stale_def by (elim exE conjE)
  from a b show "\<exists>h catalog d headers m.
          pre = h @ [HttpHead url, IterDocs NAMESPACE, TempFile]
        \<and> requests_get_catalog env [] = Inr catalog \<and> d \<in> set catalog \<and> allow_listed d
        \<and> subscript d ''FileLocation'' = Inr url
        \<and> requests_head env h url = Inr headers
        \<and> modification_date env \<lparr>dataset_metadata = d, dataset_server_metadata = headers\<rparr>
              (h @ [HttpHead url]) = Inr m
        \<and> is_dataset_already_up_to_date env url m (h @ [HttpHead url])
            = (Inr False, h @ [HttpHead url, IterDocs NAMESPACE])"
    by (intro exI [of _ h] exI [of _ catalog] exI [of _ d] exI [of _ headers] exI [of _ m] conjI)
next
  assume "snd (main env []) = pre @ AddToCatalog (MetadataDict md) f # post"
  with main_gated [of env] have "gate_ok env pre (AddToCatalog (MetadataDict md) f)"
    by (simp add: gated_from_append)
  then show "\<exists>h url. pre = h @ [Download url f]" by simp
next
  from wb_main_trace [of env] show "filter is_consult (snd (wb_main env [])) = []"
    by (elim exE conjE disjE) simp_all
next
  assume "create_metadata_dict env [] = (Inr wmd, tr1) \<and> check_date wmd = Inr ()
      \<and> named_temporary_file env tr1 = Inr tf"
  then have "create_metadata_dict env [] = (Inr wmd, tr1)" "check_date wmd = Inr ()"
    "named_temporary_file env tr1 = Inr tf" by simp_all
  note w = wb_main_after_check [OF this]
  show "prefix (tr1 @ [TempFile, Download (PStr SOURCE_DATA_URL) tf]) (snd (wb_main env []))"
    unfolding w
    by (cases "files_download env (tr1 @ [TempFile]) (PStr SOURCE_DATA_URL) tf") simp_all
next
  assume "create_metadata_dict env [] = (Inr wmd, tr1) \<and> check_date wmd = Inr ()
      \<and> named_temporary_file env tr1 = Inr tf"
    and dl: "files_download env (tr1 @ [TempFile]) (PStr SOURCE_DATA_URL) tf = Inr ()"
  then have "create_metadata_dict env [] = (Inr wmd, tr1)" "check_date wmd = Inr ()"
    "named_temporary_file env tr1 = Inr tf" by simp_all
  note w = wb_main_after_check [OF this]
  show "snd (wb_main env []) =
      tr1 @ [TempFile, Download (PStr SOURCE_DATA_URL) tf, AddToCatalog (MetadataDict wmd) tf]"
    unfolding w dl by simp
qed

theorem download_follows_stale_verdict_witness:
  "(\<exists>h catalog d headers m.
        [HttpGet FAO_CATALOG_URL, HttpHead ae_url, IterDocs NAMESPACE, TempFile]
          = h @ [HttpHead ae_url, IterDocs NAMESPACE, TempFile]
      \<and> requests_get_catalog parse_fails_env [] = Inr catalog \<and> d \<in> set catalog
      \<and> allow_listed d
      \<and> subscript d ''FileLocation'' = Inr ae_url
      \<and> requests_head parse_fails_env h ae_url = Inr headers
      \<and> modification_date parse_fails_env
            \<lparr>dataset_metadata = d, dataset_server_metadata = headers\<rparr>
            (h @ [HttpHead ae_url]) = Inr m
      \<and> is_dataset_already_up_to_date parse_fails_env ae_url m (h @ [HttpHead ae_url])
          = (Inr False, h @ [HttpHead ae_url, IterDocs NAMESPACE]))
   \<and> prefix ([ReadExcel SOURCE_DATA_URL ''Notes'']
               @ [TempFile, Download (PStr SOURCE_DATA_URL) ''/tmp/tmp0''])
        (snd (wb_main sample_env []))
   \<and> snd (wb_main sample_env []) =
       [ReadExcel SOURCE_DATA_URL ''Notes'']
         @ [TempFile, Download (PStr SOURCE_DATA_URL) ''/tmp/tmp0'',
            AddToCatalog (MetadataDict wb_md) ''/tmp/tmp0'']"
proof -
  note fao = download_follows_stale_verdict [of parse_fails_env
      "[HttpGet FAO_CATALOG_URL, HttpHead ae_url, IterDocs NAMESPACE, TempFile]"
      ae_url "''/tmp/tmp0''"
      "[AddToCatalog (MetadataDict md_ae) ''/tmp/tmp0'', HttpHead af_url]", THEN conjunct1]
  note wb = download_follows_stale_verdict [of sample_env "[]" PNone "[]" "[]" "[]"
      wb_md "[ReadExcel SOURCE_DATA_URL ''Notes'']" "''/tmp/tmp0''",
      THEN conjunct2, THEN conjunct2, THEN conjunct2]
  have env: "named_temporary_file sample_env t = Inr ''/tmp/tmp0''"
    "files_download sample_env t u f = Inr ()" for t u f
    by (simp_all add: sample_env_def)
  have run: "snd (main parse_fails_env []) =
      [HttpGet FAO_CATALOG_URL, HttpHead ae_url, IterDocs NAMESPACE, TempFile]
        @ Download ae_url ''/tmp/tmp0''
        # [AddToCatalog (MetadataDict md_ae) ''/tmp/tmp0'', HttpHead af_url]"
    by (simp add: main_parse_fails)
  from fao run have 1: "\<exists>h catalog d headers m.
        [HttpGet FAO_CATALOG_URL, HttpHead ae_url, IterDocs NAMESPACE, TempFile]
          = h @ [HttpHead ae_url, IterDocs NAMESPACE, TempFile]
      \<and> requests_get_catalog parse_fails_env [] = Inr catalog \<and> d \<in> set catalog
      \<and> allow_listed d
      \<and> subscript d ''FileLocation'' = Inr ae_url
      \<and> requests_head parse_fails_env h ae_url = Inr headers
      \<and> modification_date parse_fails_env
            \<lparr>dataset_metadata = d, dataset_server_metadata = headers\<rparr>
            (h @ [HttpHead ae_url]) = Inr m
      \<and> is_dataset_already_up_to_date parse_fails_env ae_url m (h @ [HttpHead ae_url])
          = (Inr False, h @ [HttpHead ae_url, IterDocs NAMESPACE])"
    by (rule mp)
  from wb wb_record [of "[]"] wb_check_sample env
  have 2: "prefix ([ReadExcel SOURCE_DATA_URL ''Notes'']
               @ [TempFile, Download (PStr SOURCE_DATA_URL) ''/tmp/tmp0''])
        (snd (wb_main sample_env []))
   \<and> snd (wb_main sample_env []) =
       [ReadExcel SOURCE_DATA_URL ''Notes'']
         @ [TempFile, Download (PStr SOURCE_DATA_URL) ''/tmp/tmp0'',
            AddToCatalog (MetadataDict wb_md) ''/tmp/tmp0'']"
    by simp
  from 1 2 show ?thesis by (rule conjI)
qed

text \<open>
  C6 as stated fails for the World Bank pipeline: its run downloads the file and commits
  the record, and the freshness check is not part of it.
\<close>

theorem download_counterexample:
  "wb_main sample_env [] =
     (Inr (), [ReadExcel SOURCE_DATA_URL ''Notes'', TempFile,
        Download (PStr SOURCE_DATA_URL) ''/tmp/tmp0'',
        AddToCatalog (MetadataDict wb_md) ''/tmp/tmp0''])
   \<and> filter is_consult (snd (wb_main sample_env [])) = []"
  by (simp add: wb_main_sample)

subsection \<open>The allow-list\<close>

lemma main_probes:
  assumes "requests_get_catalog env [] = Inr catalog"
    and "main_loop env catalog False [HttpGet FAO_CATALOG_URL] = (r, tr2)"
  shows "probes (snd (main env [])) = probes tr2
       \<and> filter is_consult (snd (main env [])) = filter is_consult tr2"
proof (cases r)
  case (Inl e)
  with main_unfold [OF assms] show ?thesis by simp
next
  case (Inr upd)
  show ?thesis
  proof (cases upd)
    case False
    with Inr main_unfold [OF assms] show ?thesis by simp
  next
    case True
    obtain ra tr3 where
      a: "additional_to_walden env (FAOAdditionalMetadata_init env tr2) tr2 = (ra, tr3)"
      by (cases "additional_to_walden env (FAOAdditionalMetadata_init env tr2) tr2")
    from additional_to_walden_trace [OF a] obtain ext where
      "tr3 = tr2 @ ext" "list_all is_aux_kind ext" by blast
    with Inr True a main_unfold [OF assms] show ?thesis by simp
  qed
qed

lemma skip_unlisted:
  assumes "subscript d ''DatasetCode'' = Inr (PStr c)"
    and "lower c \<notin> set INCLUDED_DATASETS_CODES"
  shows "loop_body env d upd tr = (Inr upd, tr)"
  using assms by (simp add: loop_body_def)

text \<open>
  C7, as the code has it. The descriptors evaluated in a run, each with one header request
  and, unless the run fails before, one freshness check, are those whose lower-cased code is in
  \<open>INCLUDED_DATASETS_CODES\<close>, in the order of the catalog: in any run a first part of
  them, and all of them when the loop over the catalog finishes without an exception. A
  descriptor whose code is a string outside the list is skipped: the body of the loop
  returns without an error, without an event and with the flag unchanged.
\<close>

theorem allow_listed_evaluated:
  "(requests_get_catalog env [] = Inr catalog \<longrightarrow>
      (\<exists>n. probes (snd (main env [])) = take n (map file_location (filter allow_listed catalog))))
   \<and> (requests_get_catalog env [] = Inr catalog
        \<and> main_loop env catalog False [HttpGet FAO_CATALOG_URL] = (Inr upd, tr2) \<longrightarrow>
        probes (snd (main env [])) = map file_location (filter allow_listed catalog)
      \<and> length (filter is_consult (snd (main env []))) = length (filter allow_listed catalog))
   \<and> (subscript d ''DatasetCode'' = Inr (PStr c) \<and> lower c \<notin> set INCLUDED_DATASETS_CODES \<longrightarrow>
        loop_body env d u t = (Inr u, t))"
proof (intro conjI impI)
  assume cat: "requests_get_catalog env [] = Inr catalog"
  obtain r tr where l: "main_loop env catalog False [HttpGet FAO_CATALOG_URL] = (r, tr)"
    by (cases "main_loop env catalog False [HttpGet FAO_CATALOG_URL]")
  from main_loop_probes_prefix [OF l] main_probes [OF cat l]
  show "\<exists>n. probes (snd (main env [])) = take n (map file_location (filter allow_listed catalog))"
    by simp
next
  assume a: "requests_get_catalog env [] = Inr catalog
      \<and> main_loop env catalog False [HttpGet FAO_CATALOG_URL] = (Inr upd, tr2)"
  then have cat: "requests_get_catalog env [] = Inr catalog"
    and l: "main_loop env catalog False [HttpGet FAO_CATALOG_URL] = (Inr upd, tr2)"
    by simp_all
  from main_loop_probes_done [OF l] main_probes [OF cat l]
  show "probes (snd (main env [])) = map file_location (filter allow_listed catalog)"
    and "length (filter is_consult (snd (main env []))) = length (filter allow_listed catalog)"
    by simp_all
next
  assume "subscript d ''DatasetCode'' = Inr (PStr c) \<and> lower c \<notin> set INCLUDED_DATASETS_CODES"
  then show "loop_body env d u t = (Inr u, t)" by (simp add: skip_unlisted)
qed

lemma main_fresh:
  "main fresh_env [] =
     (Inr (),
      [HttpGet FAO_CATALOG_URL,
       HttpHead ae_url, IterDocs NAMESPACE,
       Log ''INFO'' (up_to_date_message ''faostat/2021-06-04/faostat_ae.json''),
       HttpHead af_url, IterDocs NAMESPACE,
       Log ''INFO'' (up_to_date_message ''faostat/2021-06-04/faostat_af.json''),
       Log ''INFO'' no_need_message])"
  using main_unfold [OF fresh_catalog main_loop_fresh] by simp

theorem allow_listed_evaluated_witness:
  "probes (snd (main fresh_env [])) = [ae_url, af_url]
   \<and> length (filter is_consult (snd (main fresh_env []))) = 2
   \<and> loop_body fresh_env desc_zz False [HttpGet FAO_CATALOG_URL]
       = (Inr False, [HttpGet FAO_CATALOG_URL])"
proof -
  have code: "subscript desc_zz ''DatasetCode'' = Inr (PStr ''ZZ'')"
    and low: "lower ''ZZ'' \<notin> set INCLUDED_DATASETS_CODES"
    by (simp_all add: subscript_def desc_zz_def lower_def is_upper_def INCLUDED_DATASETS_CODES_def)
  from allow_listed_evaluated [of fresh_env "[desc_ae, desc_zz, desc_af]" False
      "[HttpGet FAO_CATALOG_URL,
        HttpHead ae_url, IterDocs NAMESPACE,
        Log ''INFO'' (up_to_date_message ''faostat/2021-06-04/faostat_ae.json''),
        HttpHead af_url, IterDocs NAMESPACE,
        Log ''INFO'' (up_to_date_message ''faostat/2021-06-04/faostat_af.json'')]"
      desc_zz "''ZZ''" False "[HttpGet FAO_CATALOG_URL]"]
  show ?thesis
    using code low
    by (simp add: fresh_catalog main_loop_fresh allow_listed_samples del: main_loop.simps)
qed

lemma no_header_catalog: "requests_get_catalog no_header_env tr = Inr [desc_ae, desc_zz, desc_af]"
  by (simp add: no_header_env_def sample_env_def)

lemma loop_body_ae_no_header:
  "loop_body no_header_env desc_ae upd tr = (Inl (PyExc ''KeyError''), tr @ [HttpHead ae_url])"
  by (simp add: no_header_env_def step_defs sample_defs const_defs)

text \<open>
  C7 as stated fails: the response for \<open>AE\<close> has no \<open>Last-modified\<close> header, reading it
  raises \<open>KeyError\<close>, and the run ends. \<open>AF\<close> is in the catalog and in the allow-list and
  is not evaluated.
\<close>

theorem allow_listed_counterexample:
  "requests_get_catalog no_header_env [] = Inr [desc_ae, desc_zz, desc_af]
   \<and> allow_listed desc_af \<and> file_location desc_af = af_url
   \<and> main no_header_env [] = (Inl (PyExc ''KeyError''), [HttpGet FAO_CATALOG_URL, HttpHead ae_url])
   \<and> probes (snd (main no_header_env [])) = [ae_url]"
  by (simp add: no_header_catalog allow_listed_samples main_def load_faostat_catalog_def
      loop_body_ae_no_header)

subsection \<open>Dates of publication\<close>

lemma digit_cases: "n < 10 \<Longrightarrow> n \<in> {0, 1, 2, 3, 4, 5, 6, 7, 8, 9 :: nat}"
  by (simp add: numeral_eq_Suc less_Suc_eq)

lemma digit_char_digit:
  assumes "n < 10"
  shows "is_digit (digit_char n)" and "digit_val (digit_char n) = n"
  using digit_cases [OF assms]
  by (auto simp: is_digit_def digit_val_def digit_char_def)

lemma str_nat_1: "n < 10 \<Longrightarrow> str_nat n = [digit_char n]"
  by (simp add: str_nat.simps)

lemma str_nat_step: "10 \<le> n \<Longrightarrow> str_nat n = str_nat (n div 10) @ [digit_char (n mod 10)]"
  by (subst str_nat.simps) simp

lemma str_nat_2:
  assumes "10 \<le> n" and "n < 100"
  shows "str_nat n = [digit_char (n div 10), digit_char (n mod 10)]"
proof -
  from assms have "n div 10 < 10" by simp
  then show ?thesis using assms(1) by (simp add: str_nat_step str_nat_1)
qed

lemma str_nat_3:
  assumes "100 \<le> n" and "n < 1000"
  shows "str_nat n = [digit_char (n div 100), digit_char (n div 10 mod 10), digit_char (n mod 10)]"
proof -
  from assms have a: "10 \<le> n div 10" "n div 10 < 100" "10 \<le> n" by simp_all
  have b: "n div 10 div 10 = n div 100" by (simp add: div_mult2_eq [symmetric])
  show ?thesis using str_nat_2 [OF a(1,2)] a(3) b by (simp add: str_nat_step)
qed

lemma str_nat_4:
  assumes "1000 \<le> n" and "n < 10000"
  shows "str_nat n = [digit_char (n div 1000), digit_char (n div 100 mod 10),
                      digit_char (n div 10 mod 10), digit_char (n mod 10)]"
proof -
  from assms have a: "100 \<le> n div 10" "n div 10 < 1000" "10 \<le> n" by simp_all
  have b: "n div 10 div 100 = n div 1000" "n div 10 div 10 = n div 100"
    by (simp_all add: div_mult2_eq [symmetric])
  show ?thesis using str_nat_3 [OF a(1,2)] a(3) b by (simp add: str_nat_step)
qed

lemma zeros:
  "replicate (2 - 1) (CHR ''0'') = ''0''" "replicate (2 - 2) (CHR ''0'') = []"
  "replicate (4 - 1) (CHR ''0'') = ''000''" "replicate (4 - 2) (CHR ''0'') = ''00''"
  "replicate (4 - 3) (CHR ''0'') = ''0''" "replicate (4 - 4) (CHR ''0'') = []"
  by (simp_all add: numeral_eq_Suc)

lemma digit_char_0: "digit_char 0 = CHR ''0''"
  by (simp add: digit_char_def)

lemma zfill_2:
  assumes "n < 100"
  shows "zfill 2 n = [digit_char (n div 10), digit_char (n mod 10)]"
proof (cases "n < 10")
  case True
  then have "length (str_nat n) = 1" "n div 10 = 0" "n mod 10 = n" by (simp_all add: str_nat_1)
  with True show ?thesis
    unfolding zfill_def by (simp only: zeros str_nat_1 digit_char_0 append.simps)
next
  case False
  with assms have "length (str_nat n) = 2" by (simp add: str_nat_2)
  with False assms show ?thesis
    unfolding zfill_def by (simp only: zeros) (simp add: str_nat_2)
qed

lemma zfill_4:
  assumes "n < 10000"
  shows "zfill 4 n = [digit_char (n div 1000), digit_char (n div 100 mod 10),
                      digit_char (n div 10 mod 10), digit_char (n mod 10)]"
proof -
  consider "n < 10" | "10 \<le> n" "n < 100" | "100 \<le> n" "n < 1000" | "1000 \<le> n"
    by linarith
  then show ?thesis
  proof cases
    case 1
    then have "length (str_nat n) = 1" "n div 1000 = 0" "n div 100 = 0" "n div 10 = 0"
      "n mod 10 = n" by (simp_all add: str_nat_1)
    with 1 show ?thesis
      unfolding zfill_def by (simp only: zeros) (simp add: str_nat_1 digit_char_0)
  next
    case 2
    then have "length (str_nat n) = 2" "n div 1000 = 0" "n div 100 = 0"
      by (simp_all add: str_nat_2)
    with 2 show ?thesis
      unfolding zfill_def by (simp only: zeros) (simp add: str_nat_2 digit_char_0)
  next
    case 3
    then have "length (str_nat n) = 3" "n div 1000 = 0" by (simp_all add: str_nat_3)
    with 3 show ?thesis
      unfolding zfill_def by (simp only: zeros) (simp add: str_nat_3 digit_char_0)
  next
    case 4
    with assms have "length (str_nat n) = 4" by (simp add: str_nat_4)
    with 4 assms show ?thesis
      unfolding zfill_def by (simp only: zeros) (simp add: str_nat_4)
  qed
qed

lemma decimal_4:
  "1000 * (y div 1000) + 100 * (y div 100 mod 10) + 10 * (y div 10 mod 10) + y mod 10 = (y::nat)"
proof -
  define q1 where "q1 = y div 10"
  define q2 where "q2 = q1 div 10"
  define q3 where "q3 = q2 div 10"
  have e1: "y = 10 * q1 + y mod 10" unfolding q1_def by simp
  have e2: "q1 = 10 * q2 + q1 mod 10" unfolding q2_def by simp
  have e3: "q2 = 10 * q3 + q2 mod 10" unfolding q3_def by simp
  have d2: "y div 100 = q2" unfolding q2_def q1_def by (simp add: div_mult2_eq [symmetric])
  have d3: "y div 1000 = q3" unfolding q3_def q2_def q1_def by (simp add: div_mult2_eq [symmetric])
  have "1000 * q3 + 100 * (q2 mod 10) + 10 * (q1 mod 10) + y mod 10
      = 10 * (10 * (10 * q3 + q2 mod 10) + q1 mod 10) + y mod 10"
    by (simp add: algebra_simps)
  also have "\<dots> = 10 * (10 * q2 + q1 mod 10) + y mod 10" using e3 by simp
  also have "\<dots> = 10 * q1 + y mod 10" using e2 by simp
  also have "\<dots> = y" using e1 by simp
  finally show ?thesis unfolding d2 d3 q1_def [symmetric] .
qed

lemma decimal_2: "10 * (m div 10) + m mod 10 = (m::nat)"
  by simp

lemma days_in_month_le: "days_in_month y m \<le> 31"
  by (simp add: days_in_month_def)

lemma parse_isoformat:
  assumes "valid_date y m d"
  shows "parse_isoformat_date (isoformat (Date y m d)) = Some (y, m, d)"
    and "length (isoformat (Date y m d)) = 10"
proof -
  from assms have y: "y < 10000" and m: "m < 100" and d: "d < 100"
    using days_in_month_le [of y m] by (auto simp: valid_date_def)
  have dy: "y div 1000 < 10" "y div 100 mod 10 < 10" "y div 10 mod 10 < 10" "y mod 10 < 10"
    and dm: "m div 10 < 10" "m mod 10 < 10" and dd: "d div 10 < 10" "d mod 10 < 10"
    using y m d by auto
  note vy = decimal_4 [of y] and vm = decimal_2 [of m] and vd = decimal_2 [of d]
  show "parse_isoformat_date (isoformat (Date y m d)) = Some (y, m, d)"
    using dy dm dd vy vm vd
    by (simp add: zfill_4 [OF y] zfill_2 [OF m] zfill_2 [OF d] digit_char_digit)
  show "length (isoformat (Date y m d)) = 10"
    by (simp add: zfill_4 [OF y] zfill_2 [OF m] zfill_2 [OF d])
qed

lemma fromisoformat_roundtrip:
  assumes "valid_date y m d"
  shows "fromisoformat_date other (PStr (isoformat (Date y m d))) = Inr (Date y m d)"
  using parse_isoformat [OF assms] assms
  by (simp add: fromisoformat_date.simps(1) make_date_def del: isoformat.simps)

lemma fromisoformat_errors:
  "fromisoformat_date other v = Inl e \<Longrightarrow> e = PyExc ''ValueError'' \<or> e = PyExc ''TypeError''"
  by (cases v) (auto simp: fromisoformat_date.simps(1) make_date_def split: option.splits if_splits)

lemma publication_date_errors:
  assumes "publication_date env self = Inl e"
  shows "e = PyExc ''KeyError'' \<or> e = PyExc ''ValueError'' \<or> e = PyExc ''TypeError''"
proof (cases "subscript (dataset_metadata self) ''DateUpdate''")
  case (Inl e')
  with assms show ?thesis
    by (auto simp: publication_date_def subscript_def split: option.splits)
next
  case (Inr v)
  with assms fromisoformat_errors [of "fromisoformat_other env" v e] show ?thesis
    by (simp add: publication_date_def)
qed

text \<open>
  C8, as the code has it. \<open>publication_date\<close> is read with \<open>datetime.fromisoformat\<close> and
  with nothing else: it succeeds on the ISO text \<open>YYYY-MM-DD\<close> of every date that exists
  and returns that date; on a string that is not of that form its result is the one of the
  library, the date when the library accepts the string and \<open>ValueError\<close> when it does
  not, as for a date in free text; when it raises, the exception is \<open>KeyError\<close>,
  \<open>ValueError\<close> or \<open>TypeError\<close>, and never \<open>MetadataParseError\<close>.
\<close>

theorem publication_date_iso_only:
  "(valid_date y m d
      \<and> subscript (dataset_metadata self) ''DateUpdate'' = Inr (PStr (isoformat (Date y m d))) \<longrightarrow>
        publication_date env self = Inr (Date y m d))
   \<and> (subscript (dataset_metadata self) ''DateUpdate'' = Inr (PStr s)
      \<and> parse_isoformat_date s = None \<longrightarrow>
        publication_date env self =
          (case fromisoformat_other env s of
             None \<Rightarrow> Inl (PyExc ''ValueError'')
           | Some dt \<Rightarrow> Inr dt))
   \<and> (publication_date env self = Inl e \<longrightarrow>
        e = PyExc ''KeyError'' \<or> e = PyExc ''ValueError'' \<or> e = PyExc ''TypeError'')
   \<and> publication_date env self \<noteq> Inl (PyExc ''MetadataParseError'')"
proof (intro conjI impI)
  assume "valid_date y m d
      \<and> subscript (dataset_metadata self) ''DateUpdate'' = Inr (PStr (isoformat (Date y m d)))"
  then show "publication_date env self = Inr (Date y m d)"
    by (simp add: publication_date_def fromisoformat_roundtrip del: isoformat.simps)
next
  assume "subscript (dataset_metadata self) ''DateUpdate'' = Inr (PStr s)
      \<and> parse_isoformat_date s = None"
  then show "publication_date env self =
      (case fromisoformat_other env s of
         None \<Rightarrow> Inl (PyExc ''ValueError'')
       | Some dt \<Rightarrow> Inr dt)"
    by (simp add: publication_date_def fromisoformat_date.simps(1))
next
  assume "publication_date env self = Inl e"
  then show "e = PyExc ''KeyError'' \<or> e = PyExc ''ValueError'' \<or> e = PyExc ''TypeError''"
    by (rule publication_date_errors)
next
  show "publication_date env self \<noteq> Inl (PyExc ''MetadataParseError'')"
    using publication_date_errors [of env self "PyExc ''MetadataParseError''"] by auto
qed

theorem publication_date_iso_only_witness:
  "publication_date sample_env \<lparr>dataset_metadata = desc_ae, dataset_server_metadata = []\<rparr>
     = Inr (Date 2021 5 20)
   \<and> publication_date sample_env \<lparr>dataset_metadata = desc_free_text, dataset_server_metadata = []\<rparr>
     = Inl (PyExc ''ValueError'')
   \<and> publication_date sample_env \<lparr>dataset_metadata = desc_with_time, dataset_server_metadata = []\<rparr>
     = Inr (Date 2021 5 20)"
proof -
  have iso: "isoformat (Date 2021 5 20) = ''2021-05-20''"
    by (simp add: zfill_samples)
  have valid: "valid_date 2021 5 20"
    by (simp add: valid_date_def days_in_month_def)
  have a: "subscript desc_ae ''DateUpdate'' = Inr (PStr ''2021-05-20'')"
    and b: "subscript desc_free_text ''DateUpdate'' = Inr (PStr ''June 1, 2021'')"
    and b': "subscript desc_with_time ''DateUpdate'' = Inr (PStr ''2021-05-20T00:00:00'')"
    by (simp_all add: subscript_def desc_ae_def desc_free_text_def desc_with_time_def)
  have c: "parse_isoformat_date ''June 1, 2021'' = None"
    "parse_isoformat_date ''2021-05-20T00:00:00'' = None"
    by simp_all
  have lib: "fromisoformat_other sample_env ''June 1, 2021'' = None"
    "fromisoformat_other sample_env ''2021-05-20T00:00:00'' = Some (Date 2021 5 20)"
    by (simp_all add: sample_env_def)
  from publication_date_iso_only [of 2021 5 20
      "\<lparr>dataset_metadata = desc_ae, dataset_server_metadata = []\<rparr>" sample_env]
  have 1: "publication_date sample_env
      \<lparr>dataset_metadata = desc_ae, dataset_server_metadata = []\<rparr> = Inr (Date 2021 5 20)"
    using iso valid a by (simp del: isoformat.simps)
  from publication_date_iso_only [of _ _ _
      "\<lparr>dataset_metadata = desc_free_text, dataset_server_metadata = []\<rparr>"
      sample_env "''June 1, 2021''"]
  have 2: "publication_date sample_env
      \<lparr>dataset_metadata = desc_free_text, dataset_server_metadata = []\<rparr>
      = Inl (PyExc ''ValueError'')"
    using b c lib by (simp del: isoformat.simps)
  from publication_date_iso_only [of _ _ _
      "\<lparr>dataset_metadata = desc_with_time, dataset_server_metadata = []\<rparr>"
      sample_env "''2021-05-20T00:00:00''"]
  have 3: "publication_date sample_env
      \<lparr>dataset_metadata = desc_with_time, dataset_server_metadata = []\<rparr>
      = Inr (Date 2021 5 20)"
    using b' c lib by (simp del: isoformat.simps)
  from 1 2 3 show ?thesis by simp
qed

text \<open>
  C8 as stated fails: for a descriptor whose update date is the free text
  \<open>June 1, 2021\<close>, \<open>publication_date\<close> does not succeed, and the exception is
  \<open>ValueError\<close>.
\<close>

theorem publication_date_counterexample:
  "publication_date sample_env \<lparr>dataset_metadata = desc_free_text, dataset_server_metadata = []\<rparr>
     = Inl (PyExc ''ValueError'')"
  by (simp add: publication_date_def subscript_def desc_free_text_def fromiso_samples)

subsection \<open>Short names\<close>

lemma metadata_short_name:
  assumes "metadata env a = Inr md"
  shows "\<exists>sn. short_name a = Inr sn \<and> map_of md ''short_name'' = Some (PStr sn)"
  using assms
  by (cases "short_name a") (auto simp: metadata_def bindE_def split: sum.splits)

text \<open>
  C9. \<open>short_name\<close> is a function of the descriptor alone, and of it only the field
  \<open>DatasetCode\<close>: two datasets whose descriptors give the same code, or fail the same way
  to give one, have the same short name, whatever else the descriptors or the headers of
  the server hold; for a code that is a string the short name is the namespace, an
  underscore and the code in lower case; and this is the short name in the metadata
  record. The function takes neither the world nor the history of the run.
\<close>

theorem short_name_deterministic:
  "(subscript (dataset_metadata a) ''DatasetCode'' = subscript (dataset_metadata b) ''DatasetCode''
      \<longrightarrow> short_name a = short_name b)
   \<and> (subscript (dataset_metadata a) ''DatasetCode'' = Inr (PStr c)
      \<longrightarrow> short_name a = Inr (''faostat_'' @ lower c))
   \<and> (metadata env a = Inr md
      \<longrightarrow> (\<exists>sn. short_name a = Inr sn \<and> map_of md ''short_name'' = Some (PStr sn)))"
  using metadata_short_name by (auto simp: short_name_def NAMESPACE_def)

theorem short_name_deterministic_witness:
  "short_name \<lparr>dataset_metadata = desc_ae, dataset_server_metadata = []\<rparr> = Inr ''faostat_ae''
   \<and> short_name \<lparr>dataset_metadata = desc_free_text,
         dataset_server_metadata = [(''Last-Modified'', last_modified_text)]\<rparr>
     = short_name \<lparr>dataset_metadata = desc_ae, dataset_server_metadata = []\<rparr>
   \<and> map_of md_ae ''short_name'' = Some (PStr ''faostat_ae'')"
proof -
  have code: "subscript desc_ae ''DatasetCode'' = Inr (PStr ''AE'')"
    "subscript desc_free_text ''DatasetCode'' = Inr (PStr ''AE'')"
    by (simp_all add: subscript_def desc_ae_def desc_free_text_def)
  have low: "lower ''AE'' = ''ae''" by (simp add: lower_def is_upper_def)
  note t = short_name_deterministic [of
      "\<lparr>dataset_metadata = desc_ae, dataset_server_metadata = []\<rparr>"
      "\<lparr>dataset_metadata = desc_free_text,
         dataset_server_metadata = [(''Last-Modified'', last_modified_text)]\<rparr>"
      "''AE''" sample_env md_ae]
  from t code low
  have s1: "short_name \<lparr>dataset_metadata = desc_ae, dataset_server_metadata = []\<rparr>
      = Inr ''faostat_ae''"
    by auto
  from t code
  have s2: "short_name \<lparr>dataset_metadata = desc_ae, dataset_server_metadata = []\<rparr>
      = short_name \<lparr>dataset_metadata = desc_free_text,
          dataset_server_metadata = [(''Last-Modified'', last_modified_text)]\<rparr>"
    by simp
  from t metadata_ae [of "[]"] obtain sn where
    "short_name \<lparr>dataset_metadata = desc_ae, dataset_server_metadata = []\<rparr> = Inr sn"
    "map_of md_ae ''short_name'' = Some (PStr sn)"
    by blast
  with s1 have s3: "map_of md_ae ''short_name'' = Some (PStr ''faostat_ae'')" by simp
  from s1 s2 s3 show ?thesis by auto
qed

subsection \<open>The World Bank pipeline\<close>

lemma wb_main_unfold:
  assumes "load_metadata_description env [] = (Inr descr, tr1)"
  shows "tr1 = [ReadExcel SOURCE_DATA_URL ''Notes'']"
    and "\<not> sublist income_sentence descr \<Longrightarrow> wb_main env [] = (Inl (PyExc ''ValueError''), tr1)"
proof -
  from assms show tr1: "tr1 = [ReadExcel SOURCE_DATA_URL ''Notes'']"
    by (cases "read_excel_notes env [] SOURCE_DATA_URL")
      (auto simp: load_metadata_description_def)
  assume "\<not> sublist income_sentence descr"
  with assms show "wb_main env [] = (Inl (PyExc ''ValueError''), tr1)"
    by (simp add: wb_main_def create_metadata_dict_def check_date_def subscript_def)
qed

lemma wb_main_no_description:
  assumes "load_metadata_description env [] = (Inl e, tr1)"
  shows "wb_main env [] = (Inl e, [ReadExcel SOURCE_DATA_URL ''Notes''])"
  using assms
  by (cases "read_excel_notes env [] SOURCE_DATA_URL")
    (auto simp: wb_main_def create_metadata_dict_def load_metadata_description_def)

text \<open>
  C10. In the World Bank pipeline, when the description that was read does not contain the
  sentence, \<open>main\<close> raises \<open>ValueError\<close> and the run consists of reading the spreadsheet
  only, with no download and no commit. A download or a commit occurs in a run only if the
  description was read and contains the sentence.
\<close>

theorem check_date_gates_download:
  "(load_metadata_description env [] = (Inr descr, tr1) \<and> \<not> sublist income_sentence descr \<longrightarrow>
      wb_main env [] = (Inl (PyExc ''ValueError''), [ReadExcel SOURCE_DATA_URL ''Notes'']))
   \<and> (filter is_download (snd (wb_main env [])) \<noteq> []
        \<or> filter is_primary_commit (snd (wb_main env [])) \<noteq> [] \<longrightarrow>
      (\<exists>d t. load_metadata_description env [] = (Inr d, t) \<and> sublist income_sentence d))"
proof (intro conjI impI)
  assume "load_metadata_description env [] = (Inr descr, tr1) \<and> \<not> sublist income_sentence descr"
  then show "wb_main env [] = (Inl (PyExc ''ValueError''), [ReadExcel SOURCE_DATA_URL ''Notes''])"
    using wb_main_unfold [of env descr tr1] by simp
next
  assume ev: "filter is_download (snd (wb_main env [])) \<noteq> []
      \<or> filter is_primary_commit (snd (wb_main env [])) \<noteq> []"
  obtain r t where l: "load_metadata_description env [] = (r, t)"
    by (cases "load_metadata_description env []")
  show "\<exists>d t. load_metadata_description env [] = (Inr d, t) \<and> sublist income_sentence d"
  proof (cases r)
    case (Inl e)
    with l ev wb_main_no_description [of env e t] show ?thesis by simp
  next
    case (Inr d)
    show ?thesis
    proof (cases "sublist income_sentence d")
      case True
      with l Inr show ?thesis by blast
    next
      case False
      with l Inr ev wb_main_unfold [of env d t] show ?thesis by simp
    qed
  qed
qed

lemma old_notes_description:
  "load_metadata_description old_notes_env [] =
     (Inr ''Income classifications set on 1 July 2022 remain in effect until 1 July 2023.'',
      [ReadExcel SOURCE_DATA_URL ''Notes''])"
  by (simp add: load_metadata_description_def old_notes_env_def sample_env_def)

lemma old_notes_no_sentence:
  "\<not> sublist income_sentence
     ''Income classifications set on 1 July 2022 remain in effect until 1 July 2023.''"
  by (simp add: income_sentence_def sublist_Cons_right)

theorem check_date_gates_download_witness:
  "wb_main old_notes_env [] = (Inl (PyExc ''ValueError''), [ReadExcel SOURCE_DATA_URL ''Notes''])
   \<and> (\<exists>d t. load_metadata_description sample_env [] = (Inr d, t) \<and> sublist income_sentence d)"
proof -
  from check_date_gates_download [of old_notes_env
      "''Income classifications set on 1 July 2022 remain in effect until 1 July 2023.''"
      "[ReadExcel SOURCE_DATA_URL ''Notes'']"]
  have "wb_main old_notes_env [] = (Inl (PyExc ''ValueError''), [ReadExcel SOURCE_DATA_URL ''Notes''])"
    using old_notes_description old_notes_no_sentence by simp
  moreover from check_date_gates_download [of sample_env]
  have "\<exists>d t. load_metadata_description sample_env [] = (Inr d, t) \<and> sublist income_sentence d"
    by (simp add: wb_main_sample)
  ultimately show ?thesis by simp
qed

end
